theory Spec2Isabelle
  imports
    Complex_Main
    "HOL-Library.AList"
    "HOL-Library.Product_Lexorder"
    "HOL-Library.List_Lexorder"
    "HOL-Library.Char_ord"
begin

section \<open>Tables\<close>

text \<open>
  The script \<^verbatim>\<open>build_dataset.py\<close> works on pandas data frames. A frame is held here
  as its column names, in order, and its rows; a row is a dictionary from column name to
  cell, and a column the row does not hold reads as missing (\<open>Null\<close>, pandas' NaN, None
  and NaT). The row index is left out: nothing in the script reads it, and both files
  are written with \<^verbatim>\<open>index=False\<close>.

  A cell is one of the values a JSON document holds (a string, an integer, a float, a
  boolean, a sequence of strings for \<^verbatim>\<open>hashtags\<close> and \<^verbatim>\<open>mentions\<close>, or nothing) or a
  parsed timestamp \<open>TsV\<close> (nanoseconds since the epoch, UTC). Integers are unbounded, as
  Python's are; a float is held as the rational number it stands for.
\<close>

datatype val =
    Null
  | IntV int
  | FltV rat
  | StrV string
  | BoolV bool
  | SeqV "string list"
  | TsV int

type_synonym row = "(string \<times> val) list"

record dataframe =
  columns :: "string list"
  rows :: "row list"

definition cell :: "row \<Rightarrow> string \<Rightarrow> val" where
  "cell r c = (case map_of r c of Some v \<Rightarrow> v | None \<Rightarrow> Null)"

datatype kind = NullK | IntK | FltK | StrK | BoolK | SeqK | TsK

fun kind_of :: "val \<Rightarrow> kind" where
  "kind_of Null = NullK"
| "kind_of (IntV n) = IntK"
| "kind_of (FltV q) = FltK"
| "kind_of (StrV s) = StrK"
| "kind_of (BoolV b) = BoolK"
| "kind_of (SeqV xs) = SeqK"
| "kind_of (TsV t) = TsK"

text \<open>
  The exceptions of Python that the script can end with; the message of a \<^verbatim>\<open>TypeError\<close>
  is left out. \<open>Unmodelled\<close> is no exception of Python. The raw export is untyped, and
  pandas has an answer for cells of every type in every column; this embedding follows
  it on the cells the data model of the input allows (names, identifiers and timestamps
  are strings, counts are integers that a 64-bit float holds exactly, and every cell may
  be missing). Where an operation meets another cell, it ends with \<^verbatim>\<open>TypeError\<close> when
  that is what pandas does for certain, and otherwise with \<open>Unmodelled\<close> and the case
  it met: the embedding then does not say what the script does. Every theorem
  below that says the script returns assumes the data model.
\<close>

datatype error =
    ValueError string
  | KeyError "string list"
  | TypeError
  | FileNotFoundError string
  | JSONDecodeError
  | Unmodelled string

text \<open>
  Two library functions are left as parameters, so that every theorem holds for each
  choice of them: \<open>str_of\<close> is Python's \<^verbatim>\<open>str\<close> on a cell that is not a string, and
  \<open>parse_datetime\<close> is the parser behind \<^verbatim>\<open>pd.to_datetime\<close>, which is given the whole
  column besides the cell (pandas settles on one format for a column) and answers
  \<open>None\<close> where it cannot read the cell.
\<close>

record lib =
  str_of :: "val \<Rightarrow> string"
  parse_datetime :: "val list \<Rightarrow> val \<Rightarrow> int option"

subsection \<open>Frame operations\<close>

text \<open>
  \<^verbatim>\<open>df[cs]\<close> with a list of names: a new frame of these columns, in this order. A name
  that is not a column raises.
\<close>

definition project :: "string list \<Rightarrow> row \<Rightarrow> row" where
  "project cs r = map (\<lambda>c. (c, cell r c)) cs"

definition getitem_cols :: "dataframe \<Rightarrow> string list \<Rightarrow> error + dataframe" where
  "getitem_cols df cs =
     (case [c \<leftarrow> cs. c \<notin> set (columns df)] of
        [] \<Rightarrow> Inr \<lparr>columns = cs, rows = map (project cs) (rows df)\<rparr>
      | c # cs' \<Rightarrow> Inl (KeyError (c # cs')))"

text \<open>\<^verbatim>\<open>df[c]\<close> with one name: the column as a series.\<close>

definition getitem :: "dataframe \<Rightarrow> string \<Rightarrow> error + val list" where
  "getitem df c =
     (if c \<in> set (columns df) then Inr (map (\<lambda>r. cell r c) (rows df))
      else Inl (KeyError [c]))"

text \<open>
  \<^verbatim>\<open>df[c] = s\<close>: an existing column is replaced where it stands, a new one is added at
  the end.
\<close>

definition setitem :: "dataframe \<Rightarrow> string \<Rightarrow> val list \<Rightarrow> error + dataframe" where
  "setitem df c s =
     (if length s \<noteq> length (rows df)
      then Inl (ValueError ''Length of values does not match length of index'')
      else Inr \<lparr>columns = (if c \<in> set (columns df) then columns df else columns df @ [c]),
                rows = map2 (\<lambda>r v. AList.update c v r) (rows df) s\<rparr>)"

text \<open>\<^verbatim>\<open>df.rename(columns=m)\<close>: a name that \<open>m\<close> does not list is kept.\<close>

definition rename_col :: "(string \<times> string) list \<Rightarrow> string \<Rightarrow> string" where
  "rename_col m c = (case map_of m c of Some c' \<Rightarrow> c' | None \<Rightarrow> c)"

definition rename :: "dataframe \<Rightarrow> (string \<times> string) list \<Rightarrow> dataframe" where
  "rename df m =
     \<lparr>columns = map (rename_col m) (columns df),
      rows = map (map (\<lambda>(c, v). (rename_col m c, v))) (rows df)\<rparr>"

text \<open>\<^verbatim>\<open>s.astype(str)\<close>: a string stays as it is.\<close>

definition py_str :: "lib \<Rightarrow> val \<Rightarrow> string" where
  "py_str L v = (case v of StrV s \<Rightarrow> s | _ \<Rightarrow> str_of L v)"

definition astype_str :: "lib \<Rightarrow> val list \<Rightarrow> val list" where
  "astype_str L s = map (\<lambda>v. StrV (py_str L v)) s"

text \<open>
  \<^verbatim>\<open>pd.to_datetime(s, errors=..., utc=True)\<close> on a column of strings. A missing cell
  and the empty string are NaT before any parsing; another string goes to the parser.
  With \<^verbatim>\<open>errors="raise"\<close> a string the parser cannot read raises, with
  \<^verbatim>\<open>errors="coerce"\<close> it becomes NaT. What pandas makes of a number, a boolean or a
  sequence in the column is not modelled.
\<close>

datatype errors_arg = Raise | Coerce

definition unparsable :: "lib \<Rightarrow> val list \<Rightarrow> val \<Rightarrow> bool" where
  "unparsable L s v \<longleftrightarrow> v \<noteq> Null \<and> v \<noteq> StrV [] \<and> parse_datetime L s v = None"

definition to_datetime_cell :: "lib \<Rightarrow> val list \<Rightarrow> val \<Rightarrow> val" where
  "to_datetime_cell L s v =
     (if v = Null \<or> v = StrV [] then Null
      else case parse_datetime L s v of Some t \<Rightarrow> TsV t | None \<Rightarrow> Null)"

definition to_datetime :: "lib \<Rightarrow> val list \<Rightarrow> errors_arg \<Rightarrow> error + val list" where
  "to_datetime L s errors =
     (if \<exists>v \<in> set s. kind_of v \<notin> {NullK, StrK}
      then Inl (Unmodelled ''to_datetime: a cell that is no string'')
      else if errors = Raise \<and> (\<exists>v \<in> set s. unparsable L s v)
      then Inl (ValueError ''Unknown datetime string format'')
      else Inr (map (to_datetime_cell L s) s))"

text \<open>
  \<^verbatim>\<open>a + b\<close> on two series, cell by cell, and the whole operation raises when one cell
  does. A missing operand gives a missing sum, whatever the other operand is. Two
  integers are added; a column of integers is an array of 64-bit integers, or of 64-bit
  floats when a cell of it is missing, and both hold the integers up to \<open>2\<^sup>5\<^sup>3\<close> exactly,
  so the sum is modelled where the operands and the sum are in this range. Two strings
  and two sequences are concatenated, as Python's \<^verbatim>\<open>+\<close> does. An integer, a string and
  a sequence do not add to one another: \<^verbatim>\<open>TypeError\<close>. Sums with a float, a boolean or
  an instant are not modelled.
\<close>

definition exact :: "int \<Rightarrow> bool" where
  "exact n \<longleftrightarrow> \<bar>n\<bar> \<le> 2 ^ 53"

fun add_val :: "val \<Rightarrow> val \<Rightarrow> error + val" where
  "add_val (IntV a) (IntV b) =
     (if exact a \<and> exact b \<and> exact (a + b) then Inr (IntV (a + b))
      else Inl (Unmodelled ''+: an integer beyond 2**53''))"
| "add_val (StrV a) (StrV b) = Inr (StrV (a @ b))"
| "add_val (SeqV a) (SeqV b) = Inr (SeqV (a @ b))"
| "add_val a b =
     (if a = Null \<or> b = Null then Inr Null
      else if kind_of a \<in> {IntK, StrK, SeqK} \<and> kind_of b \<in> {IntK, StrK, SeqK}
      then Inl TypeError
      else Inl (Unmodelled ''+: a float, a boolean or an instant''))"

text \<open>The results of a list of computations, or the first exception among them.\<close>

fun collect :: "(error + 'a) list \<Rightarrow> error + 'a list" where
  "collect [] = Inr []"
| "collect (Inl e # ms) = Inl e"
| "collect (Inr x # ms) = (case collect ms of Inl e \<Rightarrow> Inl e | Inr xs \<Rightarrow> Inr (x # xs))"

definition add_series :: "val list \<Rightarrow> val list \<Rightarrow> error + val list" where
  "add_series a b = collect (map2 add_val a b)"

text \<open>
  \<^verbatim>\<open>df.sort_values(by, ascending=...)\<close> reorders the rows by a key. \<open>keys\<close> lists the
  key columns, each with the kind of cell it is to hold, and the key function stands for
  the order the call asks for on such cells: it gives each row a value whose order is
  that order. A key that is no column raises. A key column that holds a present cell of
  another kind is not modelled (pandas orders numbers too, and cells of different types
  in its own way). \<open>sort_key\<close> is a stable sort.
\<close>

definition sort_values ::
  "dataframe \<Rightarrow> (string \<times> kind) list \<Rightarrow> (row \<Rightarrow> 'k::linorder) \<Rightarrow> error + dataframe"
where
  "sort_values df keys key =
     (case [c \<leftarrow> map fst keys. c \<notin> set (columns df)] of
        c # cs \<Rightarrow> Inl (KeyError [c])
      | [] \<Rightarrow>
          if \<forall>(c, k) \<in> set keys. \<forall>r \<in> set (rows df). kind_of (cell r c) \<in> {NullK, k}
          then Inr (df\<lparr>rows := sort_key key (rows df)\<rparr>)
          else Inl (Unmodelled ''sort_values: a key column with cells of another kind''))"

text \<open>
  The call of the post table: \<^verbatim>\<open>["owner_username", "timestamp"]\<close>,
  \<^verbatim>\<open>ascending=[True, False]\<close>. With several keys pandas sorts the rows by the
  lexicographic order of their keys with a stable sort, and \<^verbatim>\<open>na_position\<close> keeps its
  default \<^verbatim>\<open>"last"\<close>: in each key a missing cell comes after every present one,
  whatever the direction. So the key of a row is a flag that is false on a present name,
  then the name (strings compare by code point), and a flag, then the negated instant.
  The keys are read on names that are strings and timestamps that are instants, or
  missing: \<open>sort_values\<close> goes no further on a column with another cell.
\<close>

definition username_key :: "val \<Rightarrow> bool \<times> string" where
  "username_key v = (case v of StrV s \<Rightarrow> (False, s) | _ \<Rightarrow> (True, []))"

definition timestamp_key :: "val \<Rightarrow> bool \<times> int" where
  "timestamp_key v = (case v of TsV t \<Rightarrow> (False, - t) | _ \<Rightarrow> (True, 0))"

definition posts_sort_key :: "row \<Rightarrow> (bool \<times> string) \<times> (bool \<times> int)" where
  "posts_sort_key r =
     (username_key (cell r ''owner_username''), timestamp_key (cell r ''timestamp''))"

text \<open>
  The call of the user table: \<^verbatim>\<open>"total_engagement"\<close>, \<^verbatim>\<open>ascending=False\<close>. With one
  key pandas sorts with NumPy's quicksort, which does not promise an order among rows of
  equal engagement; the embedding fixes one, and no statement below depends on it. The
  key is read on engagements that are integers: \<open>sort_values\<close> goes no further on a
  column with another cell.
\<close>

definition users_sort_key :: "row \<Rightarrow> bool \<times> int" where
  "users_sort_key r =
     (case cell r ''total_engagement'' of IntV n \<Rightarrow> (False, - n) | _ \<Rightarrow> (True, 0))"

subsection \<open>Objects and in-place updates\<close>

text \<open>
  \<^verbatim>\<open>build_posts_table\<close> is handed a reference to a frame and updates frames in place
  (\<^verbatim>\<open>inplace=True\<close>, column assignment). The frames live in a heap, a reference is a
  position in it, and a statement of the script is a function from the heap to a result
  or an exception, and the heap it leaves.
\<close>

type_synonym heap = "dataframe list"
type_synonym ref = nat
type_synonym 'a prog = "heap \<Rightarrow> (error + 'a) \<times> heap"

definition ret :: "'a \<Rightarrow> 'a prog" where
  "ret x h = (Inr x, h)"

definition raise :: "error \<Rightarrow> 'a prog" where
  "raise e h = (Inl e, h)"

definition lift :: "error + 'a \<Rightarrow> 'a prog" where
  "lift m h = (m, h)"

definition bnd :: "'a prog \<Rightarrow> ('a \<Rightarrow> 'b prog) \<Rightarrow> 'b prog" where
  "bnd m f h = (case m h of (Inl e, h') \<Rightarrow> (Inl e, h') | (Inr x, h') \<Rightarrow> f x h')"

definition new :: "dataframe \<Rightarrow> ref prog" where
  "new df h = (Inr (length h), h @ [df])"

definition deref :: "ref \<Rightarrow> dataframe prog" where
  "deref p h = (Inr (h ! p), h)"

definition store :: "ref \<Rightarrow> dataframe \<Rightarrow> unit prog" where
  "store p df h = (Inr (), h[p := df])"

text \<open>The statements of the script, on references.\<close>

definition select_new :: "ref \<Rightarrow> string list \<Rightarrow> ref prog" where
  "select_new p cs = bnd (deref p) (\<lambda>df. bnd (lift (getitem_cols df cs)) new)"

definition copy :: "ref \<Rightarrow> ref prog" where
  "copy p = bnd (deref p) new"

definition rename_inplace :: "ref \<Rightarrow> (string \<times> string) list \<Rightarrow> unit prog" where
  "rename_inplace p m = bnd (deref p) (\<lambda>df. store p (rename df m))"

definition series :: "ref \<Rightarrow> string \<Rightarrow> val list prog" where
  "series p c = bnd (deref p) (\<lambda>df. lift (getitem df c))"

definition assign_col :: "ref \<Rightarrow> string \<Rightarrow> val list \<Rightarrow> unit prog" where
  "assign_col p c s = bnd (deref p) (\<lambda>df. bnd (lift (setitem df c s)) (store p))"

definition sort_values_inplace ::
  "ref \<Rightarrow> (string \<times> kind) list \<Rightarrow> (row \<Rightarrow> 'k::linorder) \<Rightarrow> unit prog"
where
  "sort_values_inplace p keys key =
     bnd (deref p) (\<lambda>df. bnd (lift (sort_values df keys key)) (store p))"

section \<open>The post table\<close>

definition required_cols :: "string list" where
  "required_cols =
     [''id'', ''shortCode'', ''type'', ''productType'', ''caption'', ''hashtags'',
      ''mentions'', ''url'', ''likesCount'', ''commentsCount'', ''timestamp'',
      ''ownerUsername'', ''ownerFullName'', ''ownerId'', ''isCommentsDisabled'',
      ''inputUrl'']"

definition rename_map :: "(string \<times> string) list" where
  "rename_map =
     [(''id'', ''ig_post_id''), (''shortCode'', ''shortcode''), (''type'', ''post_type''),
      (''productType'', ''product_type''), (''url'', ''post_url''),
      (''likesCount'', ''likes''), (''commentsCount'', ''comments''),
      (''ownerUsername'', ''owner_username''), (''ownerFullName'', ''owner_full_name''),
      (''ownerId'', ''owner_id''), (''inputUrl'', ''owner_profile_url'')]"

definition col_order :: "string list" where
  "col_order =
     [''post_id'', ''ig_post_id'', ''shortcode'', ''post_type'', ''product_type'',
      ''post_url'', ''owner_username'', ''owner_full_name'', ''owner_id'',
      ''owner_profile_url'', ''caption'', ''hashtags'', ''mentions'', ''likes'',
      ''comments'', ''engagement_raw'', ''timestamp'', ''isCommentsDisabled'']"

text \<open>
  The message of the schema check, \<^verbatim>\<open>f"Missing expected columns in JSON: {missing}"\<close>:
  Python prints the list in brackets, each name in single quotes (the names of
  \<open>required_cols\<close> hold no quote and no backslash), separated by a comma and a space.
\<close>

fun join :: "string \<Rightarrow> string list \<Rightarrow> string" where
  "join sep [] = []"
| "join sep [x] = x"
| "join sep (x # y # ys) = x @ sep @ join sep (y # ys)"

definition repr_names :: "string list \<Rightarrow> string" where
  "repr_names cs = ''['' @ join '', '' (map (\<lambda>c. [CHR 0x27] @ c @ [CHR 0x27]) cs) @ '']''"

definition missing_message :: "string list \<Rightarrow> string" where
  "missing_message missing = ''Missing expected columns in JSON: '' @ repr_names missing"

definition build_posts_table :: "lib \<Rightarrow> ref \<Rightarrow> ref prog" where
  "build_posts_table L df_raw =
     bnd (deref df_raw) (\<lambda>raw.
     let missing = [c \<leftarrow> required_cols. c \<notin> set (columns raw)] in
     if missing \<noteq> [] then raise (ValueError (missing_message missing))
     else
       bnd (select_new df_raw required_cols) (\<lambda>sel.
       bnd (copy sel) (\<lambda>df.
       bnd (rename_inplace df rename_map) (\<lambda>_.
       bnd (series df ''shortcode'') (\<lambda>shortcode.
       bnd (assign_col df ''post_id'' (astype_str L shortcode)) (\<lambda>_.
       bnd (series df ''timestamp'') (\<lambda>timestamp.
       bnd (lift (to_datetime L timestamp Coerce)) (\<lambda>parsed.
       bnd (assign_col df ''timestamp'' parsed) (\<lambda>_.
       bnd (series df ''likes'') (\<lambda>likes.
       bnd (series df ''comments'') (\<lambda>comments.
       bnd (lift (add_series likes comments)) (\<lambda>engagement.
       bnd (assign_col df ''engagement_raw'' engagement) (\<lambda>_.
       bnd (sort_values_inplace df [(''owner_username'', StrK), (''timestamp'', TsK)]
              posts_sort_key) (\<lambda>_.
       select_new df col_order))))))))))))))"

section \<open>The user table\<close>

text \<open>
  \<^verbatim>\<open>df.groupby(keys, dropna=...)\<close>: the rows fall into groups by the tuple of their key
  cells; two missing cells are the same key. With \<^verbatim>\<open>dropna=True\<close> a row with a missing
  key cell is in no group. A key that is no column raises. The key cells are strings,
  integers or missing; a key column with another cell is not modelled (pandas takes a
  boolean, a float and an integer of one value for one key). pandas lists the groups in
  the order of their keys; the sort that follows leaves of that order only the order of
  rows of equal engagement, which is not promised either, so the groups are listed here
  in the order \<open>remdups\<close> leaves. The grouped object keeps the columns of the frame.
\<close>

definition group_key :: "string list \<Rightarrow> row \<Rightarrow> val list" where
  "group_key keys r = map (cell r) keys"

type_synonym grouped = "string list \<times> (val list \<times> row list) list"

definition groupby :: "dataframe \<Rightarrow> string list \<Rightarrow> bool \<Rightarrow> error + grouped" where
  "groupby df keys dropna =
     (case [c \<leftarrow> keys. c \<notin> set (columns df)] of
        c # cs \<Rightarrow> Inl (KeyError [c])
      | [] \<Rightarrow>
          if \<exists>r \<in> set (rows df). \<exists>c \<in> set keys. kind_of (cell r c) \<notin> {NullK, StrK, IntK}
          then Inl (Unmodelled ''groupby: a key cell that is no string and no integer'')
          else
            let rs = [r \<leftarrow> rows df. \<not> (dropna \<and> Null \<in> set (group_key keys r))]
            in Inr (columns df,
                 map (\<lambda>k. (k, [r \<leftarrow> rs. group_key keys r = k]))
                   (remdups (map (group_key keys) rs))))"

text \<open>
  The aggregations of the script. Each skips missing cells, as pandas does
  (\<^verbatim>\<open>skipna\<close>): \<^verbatim>\<open>nunique\<close> counts the distinct present cells, \<^verbatim>\<open>sum\<close> adds the counts
  (zero when there is none), \<^verbatim>\<open>mean\<close> is their exact quotient (pandas rounds it to the
  nearest float) and missing when there is none, \<^verbatim>\<open>min\<close> and \<^verbatim>\<open>max\<close> are taken over
  the instants and are missing when there is none.

  \<open>aggregable\<close> says on which columns they are modelled: \<^verbatim>\<open>nunique\<close> on strings and
  integers, \<^verbatim>\<open>sum\<close> and \<^verbatim>\<open>mean\<close> on integers whose absolute values add up to at most
  \<open>2\<^sup>5\<^sup>3\<close> (so that every partial sum is exact in a 64-bit integer and in a 64-bit
  float), \<^verbatim>\<open>min\<close> and \<^verbatim>\<open>max\<close> on instants; each with missing cells. \<open>ints\<close> and
  \<open>instants\<close> list the present cells of such a column.
\<close>

datatype aggfunc = Agg_nunique | Agg_sum | Agg_mean | Agg_min | Agg_max

fun ints :: "val list \<Rightarrow> int list" where
  "ints [] = []"
| "ints (IntV n # vs) = n # ints vs"
| "ints (v # vs) = ints vs"

fun instants :: "val list \<Rightarrow> int list" where
  "instants [] = []"
| "instants (TsV t # vs) = t # instants vs"
| "instants (v # vs) = instants vs"

fun aggregate :: "aggfunc \<Rightarrow> val list \<Rightarrow> val" where
  "aggregate Agg_nunique vs = IntV (int (length (remdups [v \<leftarrow> vs. v \<noteq> Null])))"
| "aggregate Agg_sum vs = IntV (sum_list (ints vs))"
| "aggregate Agg_mean vs =
     (case ints vs of [] \<Rightarrow> Null
      | n # ns \<Rightarrow> FltV (of_int (sum_list (n # ns)) / of_nat (length (n # ns))))"
| "aggregate Agg_min vs = (case instants vs of [] \<Rightarrow> Null | t # ts \<Rightarrow> TsV (fold min ts t))"
| "aggregate Agg_max vs = (case instants vs of [] \<Rightarrow> Null | t # ts \<Rightarrow> TsV (fold max ts t))"

definition magnitude :: "val \<Rightarrow> int" where
  "magnitude v = (case v of IntV n \<Rightarrow> \<bar>n\<bar> | _ \<Rightarrow> 0)"

fun aggregable :: "aggfunc \<Rightarrow> val list \<Rightarrow> bool" where
  "aggregable Agg_nunique vs \<longleftrightarrow> (\<forall>v \<in> set vs. kind_of v \<in> {NullK, StrK, IntK})"
| "aggregable Agg_sum vs \<longleftrightarrow>
     (\<forall>v \<in> set vs. kind_of v \<in> {NullK, IntK}) \<and> exact (sum_list (map magnitude vs))"
| "aggregable Agg_mean vs \<longleftrightarrow>
     (\<forall>v \<in> set vs. kind_of v \<in> {NullK, IntK}) \<and> exact (sum_list (map magnitude vs))"
| "aggregable Agg_min vs \<longleftrightarrow> (\<forall>v \<in> set vs. kind_of v \<in> {NullK, TsK})"
| "aggregable Agg_max vs \<longleftrightarrow> (\<forall>v \<in> set vs. kind_of v \<in> {NullK, TsK})"

text \<open>
  \<^verbatim>\<open>.agg(name=(column, function), ...)\<close> gives one row per group, indexed by the key of
  the group; a column that the frame does not have raises, and a column on which the
  function is not modelled ends the embedding. \<^verbatim>\<open>.reset_index()\<close> turns the key into
  the leading columns.
\<close>

definition agg ::
  "grouped \<Rightarrow> (string \<times> string \<times> aggfunc) list \<Rightarrow> error + (val list \<times> row) list"
where
  "agg g spec =
     (case [c \<leftarrow> map (\<lambda>(name, c, f). c) spec. c \<notin> set (fst g)] of
        c # cs \<Rightarrow> Inl (KeyError (c # cs))
      | [] \<Rightarrow>
          if \<forall>(k, rs) \<in> set (snd g). \<forall>(name, c, f) \<in> set spec.
               aggregable f (map (\<lambda>r. cell r c) rs)
          then Inr (map (\<lambda>(k, rs).
                  (k, map (\<lambda>(name, c, f). (name, aggregate f (map (\<lambda>r. cell r c) rs))) spec))
                (snd g))
          else Inl (Unmodelled ''agg: a column outside the data model''))"

definition reset_index ::
  "string list \<Rightarrow> string list \<Rightarrow> (val list \<times> row) list \<Rightarrow> dataframe"
where
  "reset_index keys names indexed =
     \<lparr>columns = keys @ names, rows = map (\<lambda>(k, r). zip keys k @ r) indexed\<rparr>"

definition owner_cols :: "string list" where
  "owner_cols = [''owner_username'', ''owner_full_name'', ''owner_id'', ''owner_profile_url'']"

definition users_aggs :: "(string \<times> string \<times> aggfunc) list" where
  "users_aggs =
     [(''posts_count'', ''post_id'', Agg_nunique),
      (''total_likes'', ''likes'', Agg_sum),
      (''total_comments'', ''comments'', Agg_sum),
      (''total_engagement'', ''engagement_raw'', Agg_sum),
      (''avg_likes'', ''likes'', Agg_mean),
      (''avg_comments'', ''comments'', Agg_mean),
      (''avg_engagement'', ''engagement_raw'', Agg_mean),
      (''first_post_timestamp'', ''timestamp'', Agg_min),
      (''last_post_timestamp'', ''timestamp'', Agg_max)]"

definition build_users_table :: "ref \<Rightarrow> ref prog" where
  "build_users_table df_posts =
     bnd (deref df_posts) (\<lambda>posts.
     bnd (lift (groupby posts owner_cols False)) (\<lambda>groups.
     bnd (lift (agg groups users_aggs)) (\<lambda>indexed.
     bnd (new (reset_index owner_cols (map fst users_aggs) indexed)) (\<lambda>users.
     bnd (sort_values_inplace users [(''total_engagement'', IntK)] users_sort_key) (\<lambda>_.
     ret users)))))"

section \<open>Files and the entry point\<close>

text \<open>
  A file is either a JSON array of objects, held as the dictionaries \<^verbatim>\<open>json.load\<close>
  returns, or a CSV file, held as its header and its data records, a record as the cells
  that were written: how a cell is printed and quoted is the CSV writer's business. The
  file system maps a path to its file. The directory \<^verbatim>\<open>data\<close>, which the module creates
  when it is loaded, and the lines printed on the console are left out.
\<close>

datatype file_content = JsonArray "row list" | Csv "string list" "val list list"

type_synonym fs = "string \<Rightarrow> file_content option"

definition RAW_POSTS_JSON :: string where
  "RAW_POSTS_JSON = ''data/apify_profiles_posts.json''"

definition POSTS_CSV :: string where
  "POSTS_CSV = ''data/posts.csv''"

definition USERS_CSV :: string where
  "USERS_CSV = ''data/users.csv''"

text \<open>
  \<^verbatim>\<open>pd.DataFrame(data)\<close> on a list of dictionaries: one column per key, in the order in
  which the keys are first seen, and one row per dictionary.
\<close>

definition DataFrame :: "row list \<Rightarrow> dataframe" where
  "DataFrame data =
     (let cs = rev (remdups (rev (concat (map (map fst) data))))
      in \<lparr>columns = cs, rows = map (project cs) data\<rparr>)"

definition load_raw_posts :: "fs \<Rightarrow> string \<Rightarrow> error + dataframe" where
  "load_raw_posts files path =
     (case files path of
        None \<Rightarrow> Inl (FileNotFoundError path)
      | Some (Csv header recs) \<Rightarrow> Inl JSONDecodeError
      | Some (JsonArray data) \<Rightarrow> Inr (DataFrame data))"

text \<open>\<^verbatim>\<open>df.to_csv(path, index=False)\<close>: the header, then one record per row.\<close>

definition to_csv :: "dataframe \<Rightarrow> string \<Rightarrow> fs \<Rightarrow> fs" where
  "to_csv df path files =
     files(path \<mapsto> Csv (columns df) (map (\<lambda>r. map (cell r) (columns df)) (rows df)))"

text \<open>
  \<^verbatim>\<open>main\<close> gives back how it ends and the file system it leaves. An exception leaves
  what was written before it.
\<close>

definition main :: "lib \<Rightarrow> fs \<Rightarrow> (error + unit) \<times> fs" where
  "main L files =
     (case load_raw_posts files RAW_POSTS_JSON of
        Inl e \<Rightarrow> (Inl e, files)
      | Inr raw \<Rightarrow>
          (case build_posts_table L 0 [raw] of
             (Inl e, h) \<Rightarrow> (Inl e, files)
           | (Inr df_posts, h) \<Rightarrow>
               let files1 = to_csv (h ! df_posts) POSTS_CSV files in
               (case build_users_table df_posts h of
                  (Inl e, h') \<Rightarrow> (Inl e, files1)
                | (Inr df_users, h') \<Rightarrow> (Inr (), to_csv (h' ! df_users) USERS_CSV files1))))"

section \<open>The data model\<close>

text \<open>
  The raw table of the data model: in every row the timestamp and the owner's name are
  strings, the owner's full name, identifier and profile address are strings or
  integers, and the two counts are integers; each of these cells may be missing. The
  absolute values of all counts add up to at most \<open>2\<^sup>5\<^sup>3\<close>, so that the counts, their
  sums in a row and their sums over any rows are exact in a 64-bit integer and in a
  64-bit float. The other columns may hold any cell.
\<close>

definition raw_in_model :: "dataframe \<Rightarrow> bool" where
  "raw_in_model df \<longleftrightarrow>
     (\<forall>r \<in> set (rows df).
        kind_of (cell r ''timestamp'') \<in> {NullK, StrK} \<and>
        kind_of (cell r ''ownerUsername'') \<in> {NullK, StrK} \<and>
        kind_of (cell r ''ownerFullName'') \<in> {NullK, StrK, IntK} \<and>
        kind_of (cell r ''ownerId'') \<in> {NullK, StrK, IntK} \<and>
        kind_of (cell r ''inputUrl'') \<in> {NullK, StrK, IntK} \<and>
        kind_of (cell r ''likesCount'') \<in> {NullK, IntK} \<and>
        kind_of (cell r ''commentsCount'') \<in> {NullK, IntK}) \<and>
     exact (sum_list (map (\<lambda>r. magnitude (cell r ''likesCount'') +
                                magnitude (cell r ''commentsCount'')) (rows df)))"

text \<open>
  The post table of the data model, as \<^verbatim>\<open>build_users_table\<close> reads it: it has the
  columns the function names; the cells of the owner and the post identifier are
  strings or integers, the timestamp is an instant, the two counts and the engagement
  are integers whose absolute values add up, in each of the three columns, to at most
  \<open>2\<^sup>5\<^sup>3\<close>; each of these cells may be missing.
\<close>

definition count_cols :: "string list" where
  "count_cols = [''likes'', ''comments'', ''engagement_raw'']"

definition posts_in_model :: "dataframe \<Rightarrow> bool" where
  "posts_in_model df \<longleftrightarrow>
     set owner_cols \<union> set count_cols \<union> {''post_id'', ''timestamp''} \<subseteq> set (columns df) \<and>
     (\<forall>r \<in> set (rows df).
        (\<forall>c \<in> set owner_cols. kind_of (cell r c) \<in> {NullK, StrK, IntK}) \<and>
        (\<forall>c \<in> set count_cols. kind_of (cell r c) \<in> {NullK, IntK}) \<and>
        kind_of (cell r ''post_id'') \<in> {NullK, StrK, IntK} \<and>
        kind_of (cell r ''timestamp'') \<in> {NullK, TsK}) \<and>
     (\<forall>c \<in> set count_cols. exact (sum_list (map (\<lambda>r. magnitude (cell r c)) (rows df))))"

section \<open>The rows the post table is made of\<close>

text \<open>
  The frame \<^verbatim>\<open>df\<close> of \<^verbatim>\<open>build_posts_table\<close> after the three derived columns and before
  the sort, written out for a raw table of the data model: its columns, and the row it
  holds for a raw row. \<open>ts\<close> is the raw timestamp column, which the parser is handed,
  and \<open>engagement\<close> is the sum of two counts that are integers or missing. The lemmas
  below show that the script computes these on a raw table of the data model.
\<close>

fun engagement :: "val \<Rightarrow> val \<Rightarrow> val" where
  "engagement (IntV a) (IntV b) = IntV (a + b)"
| "engagement l c = Null"

definition derived_cols :: "string list" where
  "derived_cols =
     [''ig_post_id'', ''shortcode'', ''post_type'', ''product_type'', ''caption'',
      ''hashtags'', ''mentions'', ''post_url'', ''likes'', ''comments'', ''timestamp'',
      ''owner_username'', ''owner_full_name'', ''owner_id'', ''isCommentsDisabled'',
      ''owner_profile_url'', ''post_id'', ''engagement_raw'']"

definition derived_row :: "lib \<Rightarrow> val list \<Rightarrow> row \<Rightarrow> row" where
  "derived_row L ts r =
     [(''ig_post_id'', cell r ''id''),
      (''shortcode'', cell r ''shortCode''),
      (''post_type'', cell r ''type''),
      (''product_type'', cell r ''productType''),
      (''caption'', cell r ''caption''),
      (''hashtags'', cell r ''hashtags''),
      (''mentions'', cell r ''mentions''),
      (''post_url'', cell r ''url''),
      (''likes'', cell r ''likesCount''),
      (''comments'', cell r ''commentsCount''),
      (''timestamp'', to_datetime_cell L ts (cell r ''timestamp'')),
      (''owner_username'', cell r ''ownerUsername''),
      (''owner_full_name'', cell r ''ownerFullName''),
      (''owner_id'', cell r ''ownerId''),
      (''isCommentsDisabled'', cell r ''isCommentsDisabled''),
      (''owner_profile_url'', cell r ''inputUrl''),
      (''post_id'', StrV (py_str L (cell r ''shortCode''))),
      (''engagement_raw'', engagement (cell r ''likesCount'') (cell r ''commentsCount''))]"


definition derived :: "lib \<Rightarrow> dataframe \<Rightarrow> dataframe" where
  "derived L raw =
     \<lparr>columns = derived_cols,
      rows = map (derived_row L (map (\<lambda>r. cell r ''timestamp'') (rows raw))) (rows raw)\<rparr>"


text \<open>
  The frame of the first selection, the frame \<^verbatim>\<open>df\<close> after the sort, and the frame the
  function returns.
\<close>

definition selected :: "dataframe \<Rightarrow> dataframe" where
  "selected raw = \<lparr>columns = required_cols, rows = map (project required_cols) (rows raw)\<rparr>"

definition ordered :: "lib \<Rightarrow> dataframe \<Rightarrow> dataframe" where
  "ordered L raw = (derived L raw)\<lparr>rows := sort_key posts_sort_key (rows (derived L raw))\<rparr>"

definition posts :: "lib \<Rightarrow> dataframe \<Rightarrow> dataframe" where
  "posts L raw =
     \<lparr>columns = col_order,
      rows = map (project col_order) (sort_key posts_sort_key (rows (derived L raw)))\<rparr>"


text \<open>The row of the returned frame that a raw row gives.\<close>

definition post_row :: "lib \<Rightarrow> val list \<Rightarrow> row \<Rightarrow> row" where
  "post_row L ts r = project col_order (derived_row L ts r)"

section \<open>An instance of the library and sample inputs\<close>

text \<open>
  A parser for the one form of timestamp the upstream export writes,
  \<^verbatim>\<open>YYYY-MM-DDTHH:MM:SS.mmmZ\<close>: the instant in nanoseconds since the epoch, when the
  fields are a date and a time of day and the instant fits 64 bits. It reads no other
  form.
\<close>

definition digit :: "char \<Rightarrow> nat option" where
  "digit c = (if CHR ''0'' \<le> c \<and> c \<le> CHR ''9'' then Some (of_char c - 48) else None)"

fun number :: "nat \<Rightarrow> string \<Rightarrow> nat option" where
  "number acc [] = Some acc"
| "number acc (c # cs) = (case digit c of None \<Rightarrow> None | Some d \<Rightarrow> number (10 * acc + d) cs)"

definition days_in_month :: "nat \<Rightarrow> nat \<Rightarrow> nat" where
  "days_in_month y m =
     (if m = 2 then (if y mod 4 = 0 \<and> (y mod 100 \<noteq> 0 \<or> y mod 400 = 0) then 29 else 28)
      else if m \<in> {4, 6, 9, 11} then 30 else 31)"

definition days_from_civil :: "int \<Rightarrow> int \<Rightarrow> int \<Rightarrow> int" where
  "days_from_civil y m d =
     (let y' = (if m \<le> 2 then y - 1 else y);
          era = y' div 400;
          yoe = y' - era * 400;
          doy = (153 * ((m + 9) mod 12) + 2) div 5 + d - 1;
          doe = yoe * 365 + yoe div 4 - yoe div 100 + doy
      in era * 146097 + doe - 719468)"

definition parse_iso :: "string \<Rightarrow> int option" where
  "parse_iso s =
     (if length s = 24 \<and> s ! 4 = CHR ''-'' \<and> s ! 7 = CHR ''-'' \<and> s ! 10 = CHR ''T'' \<and>
         s ! 13 = CHR '':'' \<and> s ! 16 = CHR '':'' \<and> s ! 19 = CHR ''.'' \<and> s ! 23 = CHR ''Z''
      then
        (case (number 0 (take 4 s), number 0 (take 2 (drop 5 s)), number 0 (take 2 (drop 8 s)),
               number 0 (take 2 (drop 11 s)), number 0 (take 2 (drop 14 s)),
               number 0 (take 2 (drop 17 s)), number 0 (take 3 (drop 20 s))) of
           (Some y, Some m, Some d, Some hh, Some mm, Some ss, Some ms) \<Rightarrow>
             (let ns = (((days_from_civil (int y) (int m) (int d) * 24 + int hh) * 60 + int mm) * 60
                         + int ss) * 1000000000 + int ms * 1000000
              in if 1 \<le> m \<and> m \<le> 12 \<and> 1 \<le> d \<and> d \<le> days_in_month y m \<and> hh < 24 \<and>
                    mm < 60 \<and> ss < 60 \<and> - (2 ^ 63) < ns \<and> ns < 2 ^ 63
                 then Some ns else None)
         | _ \<Rightarrow> None)
      else None)"

definition parse_iso_cell :: "val list \<Rightarrow> val \<Rightarrow> int option" where
  "parse_iso_cell s v = (case v of StrV t \<Rightarrow> parse_iso t | _ \<Rightarrow> None)"

text \<open>
  Python's \<^verbatim>\<open>str\<close> on an integer, on a boolean and on NaN. A short code is a string or
  one of these; the instance prints any other cell as NaN too, which Python does not, and
  no short code of the samples is one.
\<close>

fun show_nat :: "nat \<Rightarrow> string" where
  "show_nat n =
     (if n < 10 then [char_of (48 + n)] else show_nat (n div 10) @ [char_of (48 + n mod 10)])"

declare show_nat.simps [simp del]

definition show_int :: "int \<Rightarrow> string" where
  "show_int i = (if i < 0 then CHR ''-'' # show_nat (nat (- i)) else show_nat (nat i))"

definition str_plain :: "val \<Rightarrow> string" where
  "str_plain v =
     (case v of
        IntV i \<Rightarrow> show_int i
      | BoolV b \<Rightarrow> (if b then ''True'' else ''False'')
      | _ \<Rightarrow> ''nan'')"

definition iso_lib :: lib where
  "iso_lib = \<lparr>str_of = str_plain, parse_datetime = parse_iso_cell\<rparr>"

text \<open>
  A raw record with every required key, as the upstream export writes it: short code,
  owner, profile URL, the two counts and the timestamp vary, the other cells are those
  of the scenario of the specification.
\<close>

definition raw_record :: "string \<Rightarrow> string \<Rightarrow> string \<Rightarrow> val \<Rightarrow> val \<Rightarrow> string \<Rightarrow> row" where
  "raw_record code user profile likes comments ts =
     [(''id'', StrV ''1''), (''shortCode'', StrV code), (''type'', StrV ''Image''),
      (''productType'', StrV ''feed''), (''caption'', StrV ''hi''), (''hashtags'', SeqV []),
      (''mentions'', SeqV []), (''url'', StrV ''u1''), (''likesCount'', likes),
      (''commentsCount'', comments), (''timestamp'', StrV ts), (''ownerUsername'', StrV user),
      (''ownerFullName'', StrV ''Alice A''), (''ownerId'', StrV ''1001''),
      (''isCommentsDisabled'', BoolV False), (''inputUrl'', StrV profile)]"

definition alice_only :: "row list" where
  "alice_only = [raw_record ''abc'' ''alice'' ''p1'' (IntV 10) (IntV 2) ''2024-01-01T00:00:00.000Z'']"

section \<open>Reading the engagement of a row\<close>

text \<open>The two counts and the engagement of a row of the post table.\<close>

definition counts_of :: "row \<Rightarrow> val \<times> val \<times> val" where
  "counts_of r = (cell r ''likes'', cell r ''comments'', cell r ''engagement_raw'')"

text \<open>
  The equation as the specification words it, \<^verbatim>\<open>engagement_raw == likes + comments\<close>,
  on the three cells of a row: an equation between numbers. It is false when a cell is
  missing, as \<^verbatim>\<open>==\<close> is in pandas on NaN.
\<close>

fun claimed_sum :: "val \<times> val \<times> val \<Rightarrow> bool" where
  "claimed_sum (IntV a, IntV b, IntV e) \<longleftrightarrow> e = a + b"
| "claimed_sum v \<longleftrightarrow> False"

text \<open>
  What the script gives: the sum of the two counts when both are present, and a missing
  engagement when a count is missing.
\<close>

fun counts_sum :: "val \<times> val \<times> val \<Rightarrow> bool" where
  "counts_sum (IntV a, IntV b, e) \<longleftrightarrow> e = IntV (a + b)"
| "counts_sum (l, c, e) \<longleftrightarrow> (l = Null \<or> c = Null) \<and> e = Null"

fun counts_present :: "val \<times> val \<times> val \<Rightarrow> bool" where
  "counts_present (IntV a, IntV b, e) \<longleftrightarrow> True"
| "counts_present v \<longleftrightarrow> False"

section \<open>Reading the order of a frame\<close>

text \<open>
  \<open>adjacent P xs\<close>: every element of the list and the one after it are related by \<open>P\<close>.
\<close>

fun adjacent :: "('a \<Rightarrow> 'a \<Rightarrow> bool) \<Rightarrow> 'a list \<Rightarrow> bool" where
  "adjacent P (x # y # ys) \<longleftrightarrow> P x y \<and> adjacent P (y # ys)"
| "adjacent P xs \<longleftrightarrow> True"

text \<open>
  Python's \<^verbatim>\<open><=\<close> on two cells of a column. A comparison with a missing cell is false,
  as it is in pandas for NaN and NaT.
\<close>

fun cell_le :: "val \<Rightarrow> val \<Rightarrow> bool" where
  "cell_le (StrV a) (StrV b) \<longleftrightarrow> a \<le> b"
| "cell_le (IntV a) (IntV b) \<longleftrightarrow> a \<le> b"
| "cell_le (TsV a) (TsV b) \<longleftrightarrow> a \<le> b"
| "cell_le u v \<longleftrightarrow> False"

text \<open>The cells of a row that the order of the post table is about.\<close>

definition name_and_time :: "row \<Rightarrow> val \<times> val" where
  "name_and_time r = (cell r ''owner_username'', cell r ''timestamp'')"

definition id_and_time :: "row \<Rightarrow> val \<times> val" where
  "id_and_time r = (cell r ''post_id'', cell r ''timestamp'')"

text \<open>
  The order as the specification words it, between a row and the next (each given by
  its name and its timestamp): the names ascend, and under one name the earlier row's
  timestamp is at least the later row's.
\<close>

fun claimed_order :: "val \<times> val \<Rightarrow> val \<times> val \<Rightarrow> bool" where
  "claimed_order (u, t) (u', t') \<longleftrightarrow> cell_le u u' \<and> (u = u' \<longrightarrow> cell_le t' t)"

text \<open>
  The order the sort gives. Names ascend and a row without a name is not before a row
  with one; under one name the instants descend and a row without an instant is not
  before a row with one.
\<close>

fun name_before :: "val \<Rightarrow> val \<Rightarrow> bool" where
  "name_before (StrV a) (StrV b) \<longleftrightarrow> a \<le> b"
| "name_before u (StrV b) \<longleftrightarrow> False"
| "name_before u v \<longleftrightarrow> True"

fun instant_before :: "val \<Rightarrow> val \<Rightarrow> bool" where
  "instant_before (TsV a) (TsV b) \<longleftrightarrow> b \<le> a"
| "instant_before u (TsV b) \<longleftrightarrow> False"
| "instant_before u v \<longleftrightarrow> True"

fun posts_order :: "val \<times> val \<Rightarrow> val \<times> val \<Rightarrow> bool" where
  "posts_order (u, t) (u', t') \<longleftrightarrow> name_before u u' \<and> (u = u' \<longrightarrow> instant_before t t')"

fun both_present :: "val \<times> val \<Rightarrow> bool" where
  "both_present (StrV u, TsV t) \<longleftrightarrow> True"
| "both_present (u, t) \<longleftrightarrow> False"

text \<open>
  \<^verbatim>\<open>build_posts_table\<close> called on the frame of a JSON array, alone in the heap: the
  frame it returns, or its exception.
\<close>

definition posts_table_of :: "lib \<Rightarrow> row list \<Rightarrow> error + dataframe" where
  "posts_table_of L data =
     (case build_posts_table L 0 [DataFrame data] of
        (Inl e, h) \<Rightarrow> Inl e
      | (Inr p, h) \<Rightarrow> Inr (h ! p))"

text \<open>The sort key of the post table, read off the raw row.\<close>

definition raw_sort_key :: "lib \<Rightarrow> val list \<Rightarrow> row \<Rightarrow> (bool \<times> string) \<times> (bool \<times> int)" where
  "raw_sort_key L ts r =
     (username_key (cell r ''ownerUsername''),
      timestamp_key (to_datetime_cell L ts (cell r ''timestamp'')))"

text \<open>
  Six posts of two owners: two posts of one owner at the same instant, one with an empty
  timestamp and one with a timestamp that is no date. And two posts of one owner, the
  second with an empty timestamp.
\<close>

definition mixed_posts :: "row list" where
  "mixed_posts =
     [raw_record ''c1'' ''bob'' ''p2'' (IntV 5) (IntV 1) ''2024-01-01T00:00:00.000Z'',
      raw_record ''c2'' ''alice'' ''p1'' (IntV 7) (IntV 0) '''',
      raw_record ''c3'' ''alice'' ''p1'' (IntV 10) (IntV 2) ''2024-01-02T00:00:00.000Z'',
      raw_record ''c4'' ''alice'' ''p1'' (IntV 3) (IntV 3) ''2024-01-01T00:00:00.000Z'',
      raw_record ''c5'' ''alice'' ''p1'' (IntV 4) (IntV 4) ''2024-01-01T00:00:00.000Z'',
      raw_record ''c6'' ''alice'' ''p1'' (IntV 1) (IntV 1) ''not a date'']"

definition unparsed_second :: "row list" where
  "unparsed_second =
     [raw_record ''c1'' ''alice'' ''p1'' (IntV 1) (IntV 1) ''2024-01-01T00:00:00.000Z'',
      raw_record ''c2'' ''alice'' ''p1'' (IntV 1) (IntV 1) '''']"

text \<open>One post whose like count is missing (\<^verbatim>\<open>null\<close> in the export).\<close>

definition missing_likes :: "row list" where
  "missing_likes =
     [raw_record ''c1'' ''alice'' ''p1'' Null (IntV 2) ''2024-01-01T00:00:00.000Z'']"

section \<open>The rows the user table is made of\<close>

text \<open>
  The row of the user table for a key and the posts of its group, and the frame
  \<^verbatim>\<open>build_users_table\<close> returns for a post table. The lemmas below show that the script
  computes these.
\<close>

definition user_row :: "val list \<Rightarrow> row list \<Rightarrow> row" where
  "user_row k rs =
     zip owner_cols k @
     map (\<lambda>(name, c, f). (name, aggregate f (map (\<lambda>r. cell r c) rs))) users_aggs"

definition users_table :: "dataframe \<Rightarrow> dataframe" where
  "users_table posts_frame =
     \<lparr>columns = owner_cols @ map fst users_aggs,
      rows = sort_key users_sort_key
        (map (\<lambda>k. user_row k [r \<leftarrow> rows posts_frame. group_key owner_cols r = k])
          (remdups (map (group_key owner_cols) (rows posts_frame))))\<rparr>"

text \<open>What the claims about the user table read off a row.\<close>

definition owner_key :: "row \<Rightarrow> val list" where
  "owner_key r = group_key owner_cols r"

definition posts_count_of :: "row \<Rightarrow> int" where
  "posts_count_of u = (case cell u ''posts_count'' of IntV n \<Rightarrow> n | _ \<Rightarrow> 0)"

definition key_count_engagement :: "row \<Rightarrow> val list \<times> val \<times> val" where
  "key_count_engagement u = (owner_key u, cell u ''posts_count'', cell u ''total_engagement'')"

text \<open>
  \<^verbatim>\<open>build_posts_table\<close> and then \<^verbatim>\<open>build_users_table\<close> on the frame of a JSON array,
  as \<^verbatim>\<open>main\<close> calls them: the two frames, or the exception.
\<close>

definition tables_of :: "lib \<Rightarrow> row list \<Rightarrow> error + dataframe \<times> dataframe" where
  "tables_of L data =
     (case build_posts_table L 0 [DataFrame data] of
        (Inl e, h) \<Rightarrow> Inl e
      | (Inr p, h) \<Rightarrow>
          (case build_users_table p h of
             (Inl e, h') \<Rightarrow> Inl e
           | (Inr u, h') \<Rightarrow> Inr (h' ! p, h' ! u)))"

text \<open>
  One short code under two owners. And three posts, one of an owner whose name is
  missing.
\<close>

definition shared_shortcode :: "row list" where
  "shared_shortcode =
     [raw_record ''abc'' ''alice'' ''p1'' (IntV 10) (IntV 2) ''2024-01-01T00:00:00.000Z'',
      raw_record ''abc'' ''bob'' ''p2'' (IntV 1) (IntV 1) ''2024-01-01T00:00:00.000Z'']"

definition with_unnamed_owner :: "row list" where
  "with_unnamed_owner =
     [raw_record ''c1'' ''alice'' ''p1'' (IntV 10) (IntV 2) ''2024-01-01T00:00:00.000Z'',
      AList.update ''ownerUsername'' Null
        (raw_record ''c2'' ''ghost'' ''p3'' (IntV 4) (IntV 1) ''2024-01-02T00:00:00.000Z''),
      raw_record ''c3'' ''alice'' ''p1'' (IntV 3) (IntV 0) ''2024-01-02T00:00:00.000Z'']"

text \<open>A file system that holds the raw export and nothing else.\<close>

definition only_raw :: "row list \<Rightarrow> fs" where
  "only_raw data = Map.empty(RAW_POSTS_JSON \<mapsto> JsonArray data)"

section \<open>What the claims read off the tables\<close>

text \<open>
  The name and the parsed timestamp of a raw row: the two cells the post table is
  sorted by, before the columns are renamed.
\<close>

definition raw_name_and_time :: "lib \<Rightarrow> val list \<Rightarrow> row \<Rightarrow> val \<times> val" where
  "raw_name_and_time L ts r =
     (cell r ''ownerUsername'', to_datetime_cell L ts (cell r ''timestamp''))"

text \<open>
  A statement keeps the first \<open>n\<close> frames of the heap when, run on a heap of at least
  \<open>n\<close> frames, it leaves each of them as it was, whether it returns or raises; \<open>Q\<close> is
  what is known of the value it returns.
\<close>

definition keeps :: "nat \<Rightarrow> 'a prog \<Rightarrow> ('a \<Rightarrow> bool) \<Rightarrow> bool" where
  "keeps n m Q \<longleftrightarrow>
     (\<forall>h. n \<le> length h \<longrightarrow>
        (case m h of (r, h') \<Rightarrow>
           take n h' = take n h \<and> n \<le> length h' \<and> (\<forall>x. r = Inr x \<longrightarrow> Q x)))"

text \<open>
  The post identifiers of a post table, its pairs of owner and post identifier, the
  posts of one owner, and the sum of the engagement over some posts.
\<close>

definition post_ids :: "row list \<Rightarrow> val list" where
  "post_ids rs = map (\<lambda>r. cell r ''post_id'') rs"

definition owner_post_pairs :: "row list \<Rightarrow> (val list \<times> val) list" where
  "owner_post_pairs rs = map (\<lambda>r. (owner_key r, cell r ''post_id'')) rs"

definition posts_of_owner :: "val list \<Rightarrow> row list \<Rightarrow> row list" where
  "posts_of_owner k rs = [r \<leftarrow> rs. owner_key r = k]"

definition engagement_sum :: "row list \<Rightarrow> int" where
  "engagement_sum rs = sum_list (ints (map (\<lambda>r. cell r ''engagement_raw'') rs))"

text \<open>No post identifier occurs under two owners.\<close>

definition one_owner_per_post :: "row list \<Rightarrow> bool" where
  "one_owner_per_post rs \<longleftrightarrow>
     (\<forall>r \<in> set rs. \<forall>r' \<in> set rs.
        cell r ''post_id'' = cell r' ''post_id'' \<longrightarrow> owner_key r = owner_key r')"

text \<open>The required columns a raw table lacks, in the order of the list.\<close>

definition missing_cols :: "dataframe \<Rightarrow> string list" where
  "missing_cols df = [c \<leftarrow> required_cols. c \<notin> set (columns df)]"

text \<open>An export of one post whose records lack \<^verbatim>\<open>id\<close> and \<^verbatim>\<open>inputUrl\<close>.\<close>

definition truncated_export :: "row list" where
  "truncated_export =
     [[(''shortCode'', StrV ''abc''), (''type'', StrV ''Image''),
       (''productType'', StrV ''feed''), (''caption'', StrV ''hi''), (''hashtags'', SeqV []),
       (''mentions'', SeqV []), (''url'', StrV ''u1''), (''likesCount'', IntV 10),
       (''commentsCount'', IntV 2), (''timestamp'', StrV ''2024-01-01T00:00:00.000Z''),
       (''ownerUsername'', StrV ''alice''), (''ownerFullName'', StrV ''Alice A''),
       (''ownerId'', StrV ''1001''), (''isCommentsDisabled'', BoolV False)]]"

section \<open>What the statements of the script compute\<close>

lemma map2_same: "map2 f (map a xs) (map g xs) = map (\<lambda>x. f (a x) (g x)) xs"
  by (induction xs) auto

lemma cell_Cons: "cell ((k, v) # r) c = (if k = c then v else cell r c)"
  by (simp add: cell_def)

lemma cell_Nil: "cell [] c = Null"
  by (simp add: cell_def)

lemma getitem_cols_ok:
  assumes "set cs \<subseteq> set (columns df)"
  shows "getitem_cols df cs = Inr \<lparr>columns = cs, rows = map (project cs) (rows df)\<rparr>"
proof -
  from assms have "[c \<leftarrow> cs. c \<notin> set (columns df)] = []"
    by (auto simp: filter_empty_conv)
  then show ?thesis by (simp add: getitem_cols_def project_def)
qed

lemma getitem_map:
  "c \<in> set cs \<Longrightarrow>
   getitem \<lparr>columns = cs, rows = map f rs\<rparr> c = Inr (map (\<lambda>r. cell (f r) c) rs)"
  by (simp add: getitem_def)

lemma setitem_map:
  "setitem \<lparr>columns = cs, rows = map f rs\<rparr> c (map g rs) =
     Inr \<lparr>columns = (if c \<in> set cs then cs else cs @ [c]),
          rows = map (\<lambda>r. AList.update c (g r) (f r)) rs\<rparr>"
  by (simp add: setitem_def map2_same)

lemma rename_map_rows:
  "rename \<lparr>columns = cs, rows = map f rs\<rparr> m =
     \<lparr>columns = map (rename_col m) cs,
      rows = map (\<lambda>r. map (\<lambda>(c, v). (rename_col m c, v)) (f r)) rs\<rparr>"
  by (simp add: rename_def)

lemma rename_col_simps:
  "rename_col rename_map ''id'' = ''ig_post_id''"
  "rename_col rename_map ''shortCode'' = ''shortcode''"
  "rename_col rename_map ''type'' = ''post_type''"
  "rename_col rename_map ''productType'' = ''product_type''"
  "rename_col rename_map ''caption'' = ''caption''"
  "rename_col rename_map ''hashtags'' = ''hashtags''"
  "rename_col rename_map ''mentions'' = ''mentions''"
  "rename_col rename_map ''url'' = ''post_url''"
  "rename_col rename_map ''likesCount'' = ''likes''"
  "rename_col rename_map ''commentsCount'' = ''comments''"
  "rename_col rename_map ''timestamp'' = ''timestamp''"
  "rename_col rename_map ''ownerUsername'' = ''owner_username''"
  "rename_col rename_map ''ownerFullName'' = ''owner_full_name''"
  "rename_col rename_map ''ownerId'' = ''owner_id''"
  "rename_col rename_map ''isCommentsDisabled'' = ''isCommentsDisabled''"
  "rename_col rename_map ''inputUrl'' = ''owner_profile_url''"
  by (simp_all add: rename_col_def rename_map_def)


lemma bnd_Inr: "m h = (Inr x, h') \<Longrightarrow> bnd m f h = f x h'"
  by (simp add: bnd_def)

lemma bnd_Inl: "m h = (Inl e, h') \<Longrightarrow> bnd m f h = (Inl e, h')"
  by (simp add: bnd_def)

lemma select_new_ok:
  "p < length h \<Longrightarrow> set cs \<subseteq> set (columns (h ! p)) \<Longrightarrow>
   select_new p cs h =
     (Inr (length h), h @ [\<lparr>columns = cs, rows = map (project cs) (rows (h ! p))\<rparr>])"
  by (simp add: select_new_def bnd_def deref_def lift_def new_def getitem_cols_ok)

lemma copy_last: "copy (length h) (h @ [d]) = (Inr (Suc (length h)), h @ [d, d])"
  by (simp add: copy_def bnd_def deref_def new_def)

lemma rename_inplace_last:
  "rename_inplace (Suc (length h)) m (h @ [a, d]) = (Inr (), h @ [a, rename d m])"
  by (simp add: rename_inplace_def bnd_def deref_def store_def nth_append list_update_append)

lemma series_last:
  "series (Suc (length h)) c (h @ [a, d]) = (getitem d c, h @ [a, d])"
  by (simp add: series_def bnd_def deref_def lift_def nth_append)

lemma assign_col_last:
  "setitem d c s = Inr d' \<Longrightarrow>
   assign_col (Suc (length h)) c s (h @ [a, d]) = (Inr (), h @ [a, d'])"
  by (simp add: assign_col_def bnd_def deref_def lift_def store_def nth_append
      list_update_append)

lemma sort_values_inplace_last:
  "sort_values d keys key = Inr d' \<Longrightarrow>
   sort_values_inplace (Suc (length h)) keys key (h @ [a, d]) = (Inr (), h @ [a, d'])"
  by (simp add: sort_values_inplace_def bnd_def deref_def lift_def store_def nth_append
      list_update_append)

lemma select_new_last:
  "set cs \<subseteq> set (columns d) \<Longrightarrow>
   select_new (Suc (length h)) cs (h @ [a, d]) =
     (Inr (Suc (Suc (length h))),
      h @ [a, d, \<lparr>columns = cs, rows = map (project cs) (rows d)\<rparr>])"
  by (simp add: select_new_def bnd_def deref_def lift_def new_def getitem_cols_ok nth_append)

lemma to_datetime_coerce:
  "\<forall>v \<in> set s. kind_of v \<in> {NullK, StrK} \<Longrightarrow>
   to_datetime L s Coerce = Inr (map (to_datetime_cell L s) s)"
  by (auto simp: to_datetime_def)

lemma kind_of_to_datetime_cell: "kind_of (to_datetime_cell L s v) \<in> {NullK, TsK}"
  by (simp add: to_datetime_cell_def split: option.split)

lemma collect_map:
  "(\<And>x. x \<in> set xs \<Longrightarrow> f x = Inr (g x)) \<Longrightarrow> collect (map f xs) = Inr (map g xs)"
  by (induction xs) simp_all

lemma magnitude_nonneg: "0 \<le> magnitude v"
  by (simp add: magnitude_def split: val.split)

lemma member_le_sum_list_int:
  fixes f :: "'a \<Rightarrow> int"
  assumes "\<And>y. 0 \<le> f y" and "x \<in> set xs"
  shows "f x \<le> sum_list (map f xs)"
  using assms(2)
proof (induction xs)
  case Nil
  then show ?case by simp
next
  case (Cons a xs)
  have "0 \<le> sum_list (map f xs)"
    by (rule sum_list_nonneg) (auto simp: assms(1))
  moreover have "0 \<le> f a"
    by (rule assms(1))
  ultimately show ?case
    using Cons by auto
qed

lemma sum_list_filter_le_int:
  fixes f :: "'a \<Rightarrow> int"
  assumes "\<And>y. 0 \<le> f y"
  shows "sum_list (map f (filter P xs)) \<le> sum_list (map f xs)"
proof (induction xs)
  case Nil
  then show ?case by simp
next
  case (Cons a xs)
  have "0 \<le> f a"
    by (rule assms)
  with Cons show ?case
    by simp
qed

lemma exact_le: "0 \<le> m \<Longrightarrow> m \<le> n \<Longrightarrow> exact n \<Longrightarrow> exact m"
  by (simp add: exact_def)

lemma add_val_counts:
  assumes "kind_of l \<in> {NullK, IntK}" and "kind_of c \<in> {NullK, IntK}"
    and "exact (magnitude l + magnitude c)"
  shows "add_val l c = Inr (engagement l c)"
proof (cases l)
  case Null
  then show ?thesis by (cases c) simp_all
next
  case (IntV a)
  show ?thesis
  proof (cases c)
    case Null
    with IntV show ?thesis by simp
  next
    case (IntV b)
    with \<open>l = IntV a\<close> assms(3) show ?thesis
      by (auto simp: exact_def magnitude_def)
  qed (use assms(2) in simp_all)
qed (use assms(1) in simp_all)


lemma derive_steps:
  fixes L rs
  defines "ts \<equiv> map (\<lambda>r. cell r ''timestamp'') rs"
  defines "d0 \<equiv> \<lparr>columns = required_cols, rows = map (project required_cols) rs\<rparr>"
  shows "\<exists>d1 d2 d3.
    d1 = rename d0 rename_map \<and>
    getitem d1 ''shortcode'' = Inr (map (\<lambda>r. cell r ''shortCode'') rs) \<and>
    setitem d1 ''post_id'' (astype_str L (map (\<lambda>r. cell r ''shortCode'') rs)) = Inr d2 \<and>
    getitem d2 ''timestamp'' = Inr ts \<and>
    setitem d2 ''timestamp'' (map (to_datetime_cell L ts) ts) = Inr d3 \<and>
    getitem d3 ''likes'' = Inr (map (\<lambda>r. cell r ''likesCount'') rs) \<and>
    getitem d3 ''comments'' = Inr (map (\<lambda>r. cell r ''commentsCount'') rs) \<and>
    setitem d3 ''engagement_raw''
      (map (\<lambda>r. engagement (cell r ''likesCount'') (cell r ''commentsCount'')) rs)
      = Inr \<lparr>columns = derived_cols, rows = map (derived_row L ts) rs\<rparr>"
proof -
  define f1 :: "row \<Rightarrow> row" where "f1 = (\<lambda>r. map (\<lambda>(c, v). (rename_col rename_map c, v)) (project required_cols r))"
  define c1 where "c1 = map (rename_col rename_map) required_cols"
  have c1: "c1 = [''ig_post_id'', ''shortcode'', ''post_type'', ''product_type'', ''caption'',
      ''hashtags'', ''mentions'', ''post_url'', ''likes'', ''comments'', ''timestamp'',
      ''owner_username'', ''owner_full_name'', ''owner_id'', ''isCommentsDisabled'',
      ''owner_profile_url'']"
    by (simp add: c1_def required_cols_def rename_col_simps)
  have f1: "f1 r = [(''ig_post_id'', cell r ''id''),
      (''shortcode'', cell r ''shortCode''),
      (''post_type'', cell r ''type''),
      (''product_type'', cell r ''productType''),
      (''caption'', cell r ''caption''),
      (''hashtags'', cell r ''hashtags''),
      (''mentions'', cell r ''mentions''),
      (''post_url'', cell r ''url''),
      (''likes'', cell r ''likesCount''),
      (''comments'', cell r ''commentsCount''),
      (''timestamp'', cell r ''timestamp''),
      (''owner_username'', cell r ''ownerUsername''),
      (''owner_full_name'', cell r ''ownerFullName''),
      (''owner_id'', cell r ''ownerId''),
      (''isCommentsDisabled'', cell r ''isCommentsDisabled''),
      (''owner_profile_url'', cell r ''inputUrl'')]" for r
    by (simp add: f1_def project_def required_cols_def rename_col_simps)
  have d1: "rename d0 rename_map = \<lparr>columns = c1, rows = map f1 rs\<rparr>"
    by (simp add: d0_def rename_def f1_def c1_def)
  define f2 :: "row \<Rightarrow> row" where "f2 = (\<lambda>r. f1 r @ [(''post_id'', StrV (py_str L (cell r ''shortCode'')))])"
  have g1: "getitem \<lparr>columns = c1, rows = map f1 rs\<rparr> ''shortcode'' = Inr (map (\<lambda>r. cell r ''shortCode'') rs)"
    by (simp add: getitem_def c1 f1 cell_Cons)
  have s2: "setitem \<lparr>columns = c1, rows = map f1 rs\<rparr> ''post_id'' (astype_str L (map (\<lambda>r. cell r ''shortCode'') rs))
      = Inr \<lparr>columns = c1 @ [''post_id''], rows = map f2 rs\<rparr>"
    by (simp add: astype_str_def setitem_def map2_same o_def c1 f1 f2_def)
  have g2: "getitem \<lparr>columns = c1 @ [''post_id''], rows = map f2 rs\<rparr> ''timestamp'' = Inr ts"
    by (simp add: getitem_def c1 f1 f2_def cell_Cons ts_def)
  define f3 :: "row \<Rightarrow> row" where "f3 = (\<lambda>r. AList.update ''timestamp'' (to_datetime_cell L ts (cell r ''timestamp'')) (f2 r))"
  have s3: "setitem \<lparr>columns = c1 @ [''post_id''], rows = map f2 rs\<rparr> ''timestamp'' (map (to_datetime_cell L ts) ts)
      = Inr \<lparr>columns = c1 @ [''post_id''], rows = map f3 rs\<rparr>"
  proof -
    have "map (to_datetime_cell L ts) ts = map (\<lambda>r. to_datetime_cell L ts (cell r ''timestamp'')) rs"
      by (subst (2) ts_def) (simp add: o_def)
    then show ?thesis
      by (simp add: setitem_map c1 f3_def)
  qed
  have f3: "f3 r = [(''ig_post_id'', cell r ''id''),
      (''shortcode'', cell r ''shortCode''),
      (''post_type'', cell r ''type''),
      (''product_type'', cell r ''productType''),
      (''caption'', cell r ''caption''),
      (''hashtags'', cell r ''hashtags''),
      (''mentions'', cell r ''mentions''),
      (''post_url'', cell r ''url''),
      (''likes'', cell r ''likesCount''),
      (''comments'', cell r ''commentsCount''),
      (''timestamp'', to_datetime_cell L ts (cell r ''timestamp'')),
      (''owner_username'', cell r ''ownerUsername''),
      (''owner_full_name'', cell r ''ownerFullName''),
      (''owner_id'', cell r ''ownerId''),
      (''isCommentsDisabled'', cell r ''isCommentsDisabled''),
      (''owner_profile_url'', cell r ''inputUrl''),
      (''post_id'', StrV (py_str L (cell r ''shortCode'')))]" for r
    by (simp add: f3_def f2_def f1)
  have g3: "getitem \<lparr>columns = c1 @ [''post_id''], rows = map f3 rs\<rparr> ''likes'' = Inr (map (\<lambda>r. cell r ''likesCount'') rs)"
    by (simp add: getitem_def c1 f3 cell_Cons)
  have g4: "getitem \<lparr>columns = c1 @ [''post_id''], rows = map f3 rs\<rparr> ''comments'' = Inr (map (\<lambda>r. cell r ''commentsCount'') rs)"
    by (simp add: getitem_def c1 f3 cell_Cons)
  have s4: "setitem \<lparr>columns = c1 @ [''post_id''], rows = map f3 rs\<rparr> ''engagement_raw''
      (map (\<lambda>r. engagement (cell r ''likesCount'') (cell r ''commentsCount'')) rs)
      = Inr \<lparr>columns = derived_cols, rows = map (derived_row L ts) rs\<rparr>"
    by (simp add: setitem_map c1 f3 derived_cols_def derived_row_def)
  show ?thesis
    using d1 g1 s2 g2 s3 g3 g4 s4 by simp
qed



lemma derived_cols_order: "set col_order \<subseteq> set derived_cols"
  by (simp add: col_order_def derived_cols_def)

lemma raw_in_model_cells:
  assumes "raw_in_model df" and "r \<in> set (rows df)"
  shows "kind_of (cell r ''timestamp'') \<in> {NullK, StrK}"
    and "kind_of (cell r ''ownerUsername'') \<in> {NullK, StrK}"
    and "kind_of (cell r ''ownerFullName'') \<in> {NullK, StrK, IntK}"
    and "kind_of (cell r ''ownerId'') \<in> {NullK, StrK, IntK}"
    and "kind_of (cell r ''inputUrl'') \<in> {NullK, StrK, IntK}"
    and "kind_of (cell r ''likesCount'') \<in> {NullK, IntK}"
    and "kind_of (cell r ''commentsCount'') \<in> {NullK, IntK}"
    and "exact (magnitude (cell r ''likesCount'') + magnitude (cell r ''commentsCount''))"
proof -
  let ?w = "\<lambda>r. magnitude (cell r ''likesCount'') + magnitude (cell r ''commentsCount'')"
  have cells: "\<forall>r \<in> set (rows df).
        kind_of (cell r ''timestamp'') \<in> {NullK, StrK} \<and>
        kind_of (cell r ''ownerUsername'') \<in> {NullK, StrK} \<and>
        kind_of (cell r ''ownerFullName'') \<in> {NullK, StrK, IntK} \<and>
        kind_of (cell r ''ownerId'') \<in> {NullK, StrK, IntK} \<and>
        kind_of (cell r ''inputUrl'') \<in> {NullK, StrK, IntK} \<and>
        kind_of (cell r ''likesCount'') \<in> {NullK, IntK} \<and>
        kind_of (cell r ''commentsCount'') \<in> {NullK, IntK}"
    using assms(1) unfolding raw_in_model_def by (rule conjunct1)
  have total: "exact (sum_list (map ?w (rows df)))"
    using assms(1) unfolding raw_in_model_def by (rule conjunct2)
  from bspec [OF cells assms(2)]
  show "kind_of (cell r ''timestamp'') \<in> {NullK, StrK}"
    and "kind_of (cell r ''ownerUsername'') \<in> {NullK, StrK}"
    and "kind_of (cell r ''ownerFullName'') \<in> {NullK, StrK, IntK}"
    and "kind_of (cell r ''ownerId'') \<in> {NullK, StrK, IntK}"
    and "kind_of (cell r ''inputUrl'') \<in> {NullK, StrK, IntK}"
    and "kind_of (cell r ''likesCount'') \<in> {NullK, IntK}"
    and "kind_of (cell r ''commentsCount'') \<in> {NullK, IntK}"
    by blast+
  have nonneg: "0 \<le> ?w y" for y
    by (simp add: magnitude_nonneg)
  have "?w r \<le> sum_list (map ?w (rows df))"
    using nonneg assms(2) by (rule member_le_sum_list_int)
  with nonneg [of r] show "exact (?w r)"
    using total by (rule exact_le)
qed

lemma add_series_counts:
  assumes "raw_in_model df"
  shows "add_series (map (\<lambda>r. cell r ''likesCount'') (rows df))
           (map (\<lambda>r. cell r ''commentsCount'') (rows df))
         = Inr (map (\<lambda>r. engagement (cell r ''likesCount'') (cell r ''commentsCount'')) (rows df))"
  unfolding add_series_def map2_same
proof (rule collect_map)
  fix r assume "r \<in> set (rows df)"
  then show "add_val (cell r ''likesCount'') (cell r ''commentsCount'')
      = Inr (engagement (cell r ''likesCount'') (cell r ''commentsCount''))"
    by (intro add_val_counts raw_in_model_cells [OF assms])
qed

lemma derived_row_keys:
  "cell (derived_row L ts r) ''owner_username'' = cell r ''ownerUsername''"
  "cell (derived_row L ts r) ''timestamp'' = to_datetime_cell L ts (cell r ''timestamp'')"
  by (simp_all add: derived_row_def cell_Cons)

lemma sort_derived:
  assumes "raw_in_model df"
  shows "sort_values (derived L df) [(''owner_username'', StrK), (''timestamp'', TsK)]
           posts_sort_key = Inr (ordered L df)"
proof -
  have cols: "[c \<leftarrow> map fst [(''owner_username'', StrK), (''timestamp'', TsK)].
      c \<notin> set (columns (derived L df))] = []"
    by (simp add: derived_def derived_cols_def)
  have names: "kind_of (cell r ''owner_username'') \<in> {NullK, StrK}"
    if "r \<in> set (rows (derived L df))" for r
  proof -
    from that obtain x where x: "x \<in> set (rows df)"
      "r = derived_row L (map (\<lambda>r. cell r ''timestamp'') (rows df)) x"
      by (auto simp: derived_def)
    show ?thesis
      using raw_in_model_cells(2) [OF assms x(1)] by (simp only: x(2) derived_row_keys)
  qed
  have times: "kind_of (cell r ''timestamp'') \<in> {NullK, TsK}"
    if "r \<in> set (rows (derived L df))" for r
  proof -
    from that obtain x where x: "x \<in> set (rows df)"
      "r = derived_row L (map (\<lambda>r. cell r ''timestamp'') (rows df)) x"
      by (auto simp: derived_def)
    show ?thesis
      by (simp only: x(2) derived_row_keys kind_of_to_datetime_cell)
  qed
  have "\<forall>(c, k) \<in> set [(''owner_username'', StrK), (''timestamp'', TsK)].
      \<forall>r \<in> set (rows (derived L df)). kind_of (cell r c) \<in> {NullK, k}"
    using names times by simp
  then show ?thesis
    unfolding sort_values_def cols by (simp add: ordered_def)
qed

lemma build_posts_table_ok:
  assumes "raw < length h" and "set required_cols \<subseteq> set (columns (h ! raw))"
    and "raw_in_model (h ! raw)"
  shows "build_posts_table L raw h =
    (Inr (Suc (Suc (length h))),
     h @ [selected (h ! raw), ordered L (h ! raw), posts L (h ! raw)])"
proof -
  define rs where "rs = rows (h ! raw)"
  define ts where "ts = map (\<lambda>r. cell r ''timestamp'') rs"
  define en where
    "en = map (\<lambda>r. engagement (cell r ''likesCount'') (cell r ''commentsCount'')) rs"
  define d0 where "d0 = \<lparr>columns = required_cols, rows = map (project required_cols) rs\<rparr>"
  define d4 where "d4 = \<lparr>columns = derived_cols, rows = map (derived_row L ts) rs\<rparr>"
  define d5 where "d5 = ordered L (h ! raw)"
  obtain d1 d2 d3 where
    d1: "d1 = rename d0 rename_map" and
    g1: "getitem d1 ''shortcode'' = Inr (map (\<lambda>r. cell r ''shortCode'') rs)" and
    s2: "setitem d1 ''post_id'' (astype_str L (map (\<lambda>r. cell r ''shortCode'') rs)) = Inr d2" and
    g2: "getitem d2 ''timestamp'' = Inr ts" and
    s3: "setitem d2 ''timestamp'' (map (to_datetime_cell L ts) ts) = Inr d3" and
    g3: "getitem d3 ''likes'' = Inr (map (\<lambda>r. cell r ''likesCount'') rs)" and
    g4: "getitem d3 ''comments'' = Inr (map (\<lambda>r. cell r ''commentsCount'') rs)" and
    s4: "setitem d3 ''engagement_raw'' en = Inr d4"
    using derive_steps [where L = L and rs = rs] unfolding d0_def d4_def ts_def en_def by blast
  have d4: "d4 = derived L (h ! raw)"
    by (simp add: d4_def derived_def ts_def rs_def)
  have miss: "[c \<leftarrow> required_cols. c \<notin> set (columns (h ! raw))] = []"
    using assms(2) by (auto simp: filter_empty_conv)
  have strings: "\<forall>v \<in> set ts. kind_of v \<in> {NullK, StrK}"
    using raw_in_model_cells(1) [OF assms(3)] by (auto simp: ts_def rs_def)
  have p0: "deref raw h = (Inr (h ! raw), h)"
    by (simp add: deref_def)
  have p1: "select_new raw required_cols h = (Inr (length h), h @ [d0])"
    using assms by (simp add: select_new_ok d0_def rs_def)
  have p2: "copy (length h) (h @ [d0]) = (Inr (Suc (length h)), h @ [d0, d0])"
    by (rule copy_last)
  have p3: "rename_inplace (Suc (length h)) rename_map (h @ [d0, d0]) = (Inr (), h @ [d0, d1])"
    by (simp add: rename_inplace_last d1)
  have p4: "series (Suc (length h)) ''shortcode'' (h @ [d0, d1])
      = (Inr (map (\<lambda>r. cell r ''shortCode'') rs), h @ [d0, d1])"
    by (simp add: series_last g1)
  have p5: "assign_col (Suc (length h)) ''post_id''
      (astype_str L (map (\<lambda>r. cell r ''shortCode'') rs)) (h @ [d0, d1]) = (Inr (), h @ [d0, d2])"
    by (rule assign_col_last [OF s2])
  have p6: "series (Suc (length h)) ''timestamp'' (h @ [d0, d2]) = (Inr ts, h @ [d0, d2])"
    by (simp add: series_last g2)
  have p7: "lift (to_datetime L ts Coerce) (h @ [d0, d2])
      = (Inr (map (to_datetime_cell L ts) ts), h @ [d0, d2])"
    by (simp add: lift_def to_datetime_coerce [OF strings])
  have p8: "assign_col (Suc (length h)) ''timestamp'' (map (to_datetime_cell L ts) ts)
      (h @ [d0, d2]) = (Inr (), h @ [d0, d3])"
    by (rule assign_col_last [OF s3])
  have p9: "series (Suc (length h)) ''likes'' (h @ [d0, d3])
      = (Inr (map (\<lambda>r. cell r ''likesCount'') rs), h @ [d0, d3])"
    by (simp add: series_last g3)
  have p10: "series (Suc (length h)) ''comments'' (h @ [d0, d3])
      = (Inr (map (\<lambda>r. cell r ''commentsCount'') rs), h @ [d0, d3])"
    by (simp add: series_last g4)
  have p11: "lift (add_series (map (\<lambda>r. cell r ''likesCount'') rs)
      (map (\<lambda>r. cell r ''commentsCount'') rs)) (h @ [d0, d3]) = (Inr en, h @ [d0, d3])"
    by (simp add: lift_def en_def rs_def add_series_counts [OF assms(3)])
  have p12: "assign_col (Suc (length h)) ''engagement_raw'' en (h @ [d0, d3])
      = (Inr (), h @ [d0, d4])"
    by (rule assign_col_last [OF s4])
  have p13: "sort_values_inplace (Suc (length h))
      [(''owner_username'', StrK), (''timestamp'', TsK)] posts_sort_key (h @ [d0, d4])
      = (Inr (), h @ [d0, d5])"
    by (rule sort_values_inplace_last) (simp add: d4 d5_def sort_derived [OF assms(3)])
  have p14: "select_new (Suc (length h)) col_order (h @ [d0, d5])
      = (Inr (Suc (Suc (length h))),
         h @ [d0, d5, \<lparr>columns = col_order, rows = map (project col_order) (rows d5)\<rparr>])"
    by (rule select_new_last) (simp add: d5_def ordered_def derived_def derived_cols_order)
  have out: "\<lparr>columns = col_order, rows = map (project col_order) (rows (ordered L (h ! raw)))\<rparr>
      = posts L (h ! raw)"
    by (simp add: posts_def ordered_def)
  have "build_posts_table L raw h =
      (Inr (Suc (Suc (length h))),
       h @ [d0, d5, \<lparr>columns = col_order, rows = map (project col_order) (rows d5)\<rparr>])"
    unfolding build_posts_table_def
    by (simp add: bnd_def p0 miss p1 p2 p3 p4 p5 p6 p7 p8 p9 p10 p11 p12 p13 p14
        del: append.simps)
  then show ?thesis
    by (simp add: out d5_def selected_def d0_def rs_def)
qed


lemma post_row_cells:
  "post_row L ts r =
     [(''post_id'', StrV (py_str L (cell r ''shortCode''))),
      (''ig_post_id'', cell r ''id''),
      (''shortcode'', cell r ''shortCode''),
      (''post_type'', cell r ''type''),
      (''product_type'', cell r ''productType''),
      (''post_url'', cell r ''url''),
      (''owner_username'', cell r ''ownerUsername''),
      (''owner_full_name'', cell r ''ownerFullName''),
      (''owner_id'', cell r ''ownerId''),
      (''owner_profile_url'', cell r ''inputUrl''),
      (''caption'', cell r ''caption''),
      (''hashtags'', cell r ''hashtags''),
      (''mentions'', cell r ''mentions''),
      (''likes'', cell r ''likesCount''),
      (''comments'', cell r ''commentsCount''),
      (''engagement_raw'', engagement (cell r ''likesCount'') (cell r ''commentsCount'')),
      (''timestamp'', to_datetime_cell L ts (cell r ''timestamp'')),
      (''isCommentsDisabled'', cell r ''isCommentsDisabled'')]"
  by (simp add: post_row_def project_def col_order_def derived_row_def cell_Cons)

section \<open>The sample inputs, evaluated\<close>

lemma DataFrame_alice:
  "DataFrame alice_only = \<lparr>columns = required_cols, rows = alice_only\<rparr>"
  by (simp add: DataFrame_def alice_only_def raw_record_def required_cols_def project_def cell_Cons)

lemma parse1: "parse_iso ''2024-01-01T00:00:00.000Z'' = Some 1704067200000000000"
  by (simp add: parse_iso_def digit_def days_from_civil_def days_in_month_def)

lemma alice_posts:
  "rows (posts iso_lib (DataFrame alice_only)) =
    [[(''post_id'', StrV ''abc''),
      (''ig_post_id'', StrV ''1''),
      (''shortcode'', StrV ''abc''),
      (''post_type'', StrV ''Image''),
      (''product_type'', StrV ''feed''),
      (''post_url'', StrV ''u1''),
      (''owner_username'', StrV ''alice''),
      (''owner_full_name'', StrV ''Alice A''),
      (''owner_id'', StrV ''1001''),
      (''owner_profile_url'', StrV ''p1''),
      (''caption'', StrV ''hi''),
      (''hashtags'', SeqV []),
      (''mentions'', SeqV []),
      (''likes'', IntV 10),
      (''comments'', IntV 2),
      (''engagement_raw'', IntV 12),
      (''timestamp'', TsV 1704067200000000000),
      (''isCommentsDisabled'', BoolV False)]]"
  unfolding DataFrame_alice
  by (simp add: posts_def derived_def alice_only_def post_row_cells [unfolded post_row_def]
      raw_record_def cell_Cons py_str_def to_datetime_cell_def iso_lib_def parse_iso_cell_def parse1)

section \<open>Properties of the post table\<close>

lemma cell_project: "cell (project cs r) c = (if c \<in> set cs then cell r c else Null)"
  by (simp add: cell_def project_def map_of_map_restrict restrict_map_def)

lemma rows_posts:
  "rows (posts L raw) =
     map (project col_order)
       (sort_key posts_sort_key
         (map (derived_row L (map (\<lambda>r. cell r ''timestamp'') (rows raw))) (rows raw)))"
  by (simp add: posts_def derived_def)

lemma in_rows_posts:
  "r \<in> set (rows (posts L raw)) \<longleftrightarrow>
     (\<exists>r0 \<in> set (rows raw). r = post_row L (map (\<lambda>r. cell r ''timestamp'') (rows raw)) r0)"
  by (auto simp: rows_posts post_row_def)

section \<open>The order of the post table\<close>

lemma sorted_adjacent: "sorted (map f xs) \<Longrightarrow> adjacent (\<lambda>x y. f x \<le> f y) xs"
  by (induction xs rule: induct_list012) auto

lemma adjacent_mono: "adjacent P xs \<Longrightarrow> (\<And>x y. P x y \<Longrightarrow> Q x y) \<Longrightarrow> adjacent Q xs"
  by (induction P xs rule: adjacent.induct) auto

lemma adjacent_conj:
  "adjacent P xs \<Longrightarrow> \<forall>x \<in> set xs. R x \<Longrightarrow> (\<And>x y. P x y \<Longrightarrow> R x \<Longrightarrow> R y \<Longrightarrow> Q x y) \<Longrightarrow> adjacent Q xs"
  by (induction P xs rule: adjacent.induct) auto

lemma key_project: "posts_sort_key (project col_order r) = posts_sort_key r"
  by (simp add: posts_sort_key_def cell_project col_order_def)

lemma sorted_posts: "sorted (map posts_sort_key (rows (posts L raw)))"
proof -
  have "map posts_sort_key (rows (posts L raw))
      = map posts_sort_key (sort_key posts_sort_key (rows (derived L raw)))"
    by (simp add: posts_def key_project o_def)
  then show ?thesis by simp
qed

lemma username_key_le: "username_key u \<le> username_key u' \<Longrightarrow> name_before u u'"
  by (cases u; cases u') (simp_all add: username_key_def)

lemma timestamp_key_le: "timestamp_key t \<le> timestamp_key t' \<Longrightarrow> instant_before t t'"
  by (cases t; cases t') (simp_all add: timestamp_key_def)

lemma key_le_order:
  "posts_sort_key r \<le> posts_sort_key r' \<Longrightarrow> posts_order (name_and_time r) (name_and_time r')"
  unfolding posts_sort_key_def name_and_time_def
  by (auto simp: less_eq_prod_def intro: username_key_le timestamp_key_le less_imp_le)

lemma order_present:
  "posts_order x y \<Longrightarrow> both_present x \<Longrightarrow> both_present y \<Longrightarrow> claimed_order x y"
  by (cases x; cases y) (auto elim!: both_present.elims)

lemma adjacent_map: "adjacent P (map f xs) \<longleftrightarrow> adjacent (\<lambda>x y. P (f x) (f y)) xs"
  by (induction xs rule: induct_list012) auto

lemma insort_key_map_commute:
  "insort_key f (g x) (map g ys) = map g (insort_key (\<lambda>y. f (g y)) x ys)"
  by (induction ys) simp_all

lemma sort_key_map_commute: "sort_key f (map g xs) = map g (sort_key (\<lambda>x. f (g x)) xs)"
  by (induction xs) (simp_all add: insort_key_map_commute)

lemma rows_posts_raw:
  "rows (posts L raw) =
     map (post_row L (map (\<lambda>r. cell r ''timestamp'') (rows raw)))
       (sort_key (raw_sort_key L (map (\<lambda>r. cell r ''timestamp'') (rows raw))) (rows raw))"
proof -
  have "posts_sort_key (derived_row L ts r) = raw_sort_key L ts r" for ts r
    by (simp add: posts_sort_key_def raw_sort_key_def derived_row_def cell_Cons)
  then show ?thesis
    by (simp add: posts_def derived_def sort_key_map_commute post_row_def)
qed

lemma cell_raw_record:
  "cell (raw_record code user profile likes comments t) ''shortCode'' = StrV code"
  "cell (raw_record code user profile likes comments t) ''ownerUsername'' = StrV user"
  "cell (raw_record code user profile likes comments t) ''inputUrl'' = StrV profile"
  "cell (raw_record code user profile likes comments t) ''likesCount'' = likes"
  "cell (raw_record code user profile likes comments t) ''commentsCount'' = comments"
  "cell (raw_record code user profile likes comments t) ''timestamp'' = StrV t"
  "cell (raw_record code user profile likes comments t) ''id'' = StrV ''1''"
  "cell (raw_record code user profile likes comments t) ''type'' = StrV ''Image''"
  "cell (raw_record code user profile likes comments t) ''productType'' = StrV ''feed''"
  "cell (raw_record code user profile likes comments t) ''caption'' = StrV ''hi''"
  "cell (raw_record code user profile likes comments t) ''hashtags'' = SeqV []"
  "cell (raw_record code user profile likes comments t) ''mentions'' = SeqV []"
  "cell (raw_record code user profile likes comments t) ''url'' = StrV ''u1''"
  "cell (raw_record code user profile likes comments t) ''ownerFullName'' = StrV ''Alice A''"
  "cell (raw_record code user profile likes comments t) ''ownerId'' = StrV ''1001''"
  "cell (raw_record code user profile likes comments t) ''isCommentsDisabled'' = BoolV False"
  by (simp_all add: raw_record_def cell_Cons)

lemma project_raw_record:
  "project required_cols (raw_record code user profile likes comments t)
     = raw_record code user profile likes comments t"
  by (simp add: project_def required_cols_def cell_raw_record) (simp add: raw_record_def)

lemma keys_raw_record:
  "map fst (raw_record code user profile likes comments t) = required_cols"
  by (simp add: raw_record_def required_cols_def)

lemma parse2: "parse_iso ''2024-01-02T00:00:00.000Z'' = Some 1704153600000000000"
  by (simp add: parse_iso_def digit_def days_from_civil_def days_in_month_def)

lemma parse_bad: "parse_iso ''not a date'' = None"
  by (simp add: parse_iso_def)

lemma iso_cells:
  "to_datetime_cell iso_lib ts (StrV ''2024-01-01T00:00:00.000Z'') = TsV 1704067200000000000"
  "to_datetime_cell iso_lib ts (StrV ''2024-01-02T00:00:00.000Z'') = TsV 1704153600000000000"
  "to_datetime_cell iso_lib ts (StrV ''not a date'') = Null"
  "to_datetime_cell iso_lib ts (StrV []) = Null"
  by (simp_all add: to_datetime_cell_def iso_lib_def parse_iso_cell_def parse1 parse2 parse_bad)

lemma build_posts_table_missing:
  assumes "\<not> set required_cols \<subseteq> set (columns (h ! raw))"
  shows "build_posts_table L raw h =
    (Inl (ValueError (missing_message [c \<leftarrow> required_cols. c \<notin> set (columns (h ! raw))])), h)"
proof -
  have "[c \<leftarrow> required_cols. c \<notin> set (columns (h ! raw))] \<noteq> []"
    using assms by (auto simp: filter_empty_conv)
  then show ?thesis
    by (simp add: build_posts_table_def bnd_def deref_def raise_def Let_def)
qed

lemma first_seen_columns:
  assumes "distinct cs" and "set ys \<subseteq> set cs"
  shows "rev (remdups (rev (cs @ ys))) = cs"
proof -
  have "set (rev ys) \<subseteq> set (rev cs)"
    using assms(2) by simp
  then have "remdups (rev ys @ rev cs) = remdups (rev cs)"
    by (rule remdups_append)
  then show ?thesis
    using assms(1) by (simp add: distinct_remdups_id)
qed

lemma project_keys:
  assumes "distinct (map fst r)"
  shows "project (map fst r) r = r"
proof -
  have "map_of r (fst x) = Some (snd x)" if "x \<in> set r" for x
    using that assms by simp
  then have "(fst x, cell r (fst x)) = x" if "x \<in> set r" for x
    using that by (simp add: cell_def)
  then show ?thesis
    by (simp add: project_def o_def map_idI)
qed

lemma distinct_required_cols: "distinct required_cols"
  by (simp add: required_cols_def)

lemma DataFrame_records:
  assumes "data \<noteq> []" and "\<forall>r \<in> set data. map fst r = required_cols"
  shows "DataFrame data = \<lparr>columns = required_cols, rows = data\<rparr>"
proof -
  obtain r rs where data: "data = r # rs"
    using assms(1) by (cases data) auto
  have "set (concat (map (map fst) rs)) \<subseteq> set required_cols"
    using assms(2) data by auto
  moreover have "map fst r = required_cols"
    using assms(2) data by simp
  ultimately have cs: "rev (remdups (rev (concat (map (map fst) data)))) = required_cols"
    using first_seen_columns [OF distinct_required_cols] by (simp add: data)
  have "project required_cols x = x" if "x \<in> set data" for x
    using that assms(2) project_keys [of x] distinct_required_cols by auto
  then have "map (project required_cols) data = data"
    by (simp add: map_idI)
  with cs show ?thesis
    by (simp add: DataFrame_def)
qed

lemma build_fresh:
  assumes "set required_cols \<subseteq> set (columns df)" and "raw_in_model df"
  shows "build_posts_table L 0 [df] = (Inr 3, [df, selected df, ordered L df, posts L df])"
  using build_posts_table_ok [of 0 "[df]" L] assms by (simp add: eval_nat_numeral)

lemma posts_table_of_ok:
  assumes "set required_cols \<subseteq> set (columns (DataFrame data))"
    and "raw_in_model (DataFrame data)"
  shows "posts_table_of L data = Inr (posts L (DataFrame data))"
  by (simp add: posts_table_of_def build_fresh [OF assms])

lemma DataFrame_unparsed_second:
  "DataFrame unparsed_second = \<lparr>columns = required_cols, rows = unparsed_second\<rparr>"
  by (rule DataFrame_records) (simp_all add: unparsed_second_def keys_raw_record)

lemma post_row_views:
  "name_and_time (post_row L ts r) =
     (cell r ''ownerUsername'', to_datetime_cell L ts (cell r ''timestamp''))"
  "id_and_time (post_row L ts r) =
     (StrV (py_str L (cell r ''shortCode'')), to_datetime_cell L ts (cell r ''timestamp''))"
  by (simp_all add: name_and_time_def id_and_time_def post_row_cells cell_Cons)

lemma unparsed_second_sorted:
  "sort_key (raw_sort_key iso_lib ts) unparsed_second = unparsed_second"
  by (simp add: unparsed_second_def raw_sort_key_def cell_raw_record iso_cells username_key_def
      timestamp_key_def)

lemma unparsed_second_rows:
  "map name_and_time (rows (posts iso_lib (DataFrame unparsed_second)))
     = [(StrV ''alice'', TsV 1704067200000000000), (StrV ''alice'', Null)]"
  by (simp add: rows_posts_raw DataFrame_unparsed_second unparsed_second_sorted o_def
      post_row_views)
    (simp add: unparsed_second_def cell_raw_record iso_cells)

lemma DataFrame_mixed:
  "DataFrame mixed_posts = \<lparr>columns = required_cols, rows = mixed_posts\<rparr>"
  by (rule DataFrame_records) (simp_all add: mixed_posts_def keys_raw_record)

lemma mixed_sorted:
  "sort_key (raw_sort_key iso_lib ts) mixed_posts =
     [raw_record ''c3'' ''alice'' ''p1'' (IntV 10) (IntV 2) ''2024-01-02T00:00:00.000Z'',
      raw_record ''c4'' ''alice'' ''p1'' (IntV 3) (IntV 3) ''2024-01-01T00:00:00.000Z'',
      raw_record ''c5'' ''alice'' ''p1'' (IntV 4) (IntV 4) ''2024-01-01T00:00:00.000Z'',
      raw_record ''c2'' ''alice'' ''p1'' (IntV 7) (IntV 0) '''',
      raw_record ''c6'' ''alice'' ''p1'' (IntV 1) (IntV 1) ''not a date'',
      raw_record ''c1'' ''bob'' ''p2'' (IntV 5) (IntV 1) ''2024-01-01T00:00:00.000Z'']"
  by (simp add: mixed_posts_def raw_sort_key_def cell_raw_record iso_cells username_key_def
      timestamp_key_def)

lemma mixed_rows:
  "rows (posts iso_lib (DataFrame mixed_posts)) =
     map (post_row iso_lib (map (\<lambda>r. cell r ''timestamp'') mixed_posts))
       [raw_record ''c3'' ''alice'' ''p1'' (IntV 10) (IntV 2) ''2024-01-02T00:00:00.000Z'',
        raw_record ''c4'' ''alice'' ''p1'' (IntV 3) (IntV 3) ''2024-01-01T00:00:00.000Z'',
        raw_record ''c5'' ''alice'' ''p1'' (IntV 4) (IntV 4) ''2024-01-01T00:00:00.000Z'',
        raw_record ''c2'' ''alice'' ''p1'' (IntV 7) (IntV 0) '''',
        raw_record ''c6'' ''alice'' ''p1'' (IntV 1) (IntV 1) ''not a date'',
        raw_record ''c1'' ''bob'' ''p2'' (IntV 5) (IntV 1) ''2024-01-01T00:00:00.000Z'']"
  by (simp add: rows_posts_raw DataFrame_mixed mixed_sorted)

lemma mixed_names_times:
  "map name_and_time (rows (posts iso_lib (DataFrame mixed_posts))) =
     [(StrV ''alice'', TsV 1704153600000000000),
      (StrV ''alice'', TsV 1704067200000000000),
      (StrV ''alice'', TsV 1704067200000000000),
      (StrV ''alice'', Null),
      (StrV ''alice'', Null),
      (StrV ''bob'', TsV 1704067200000000000)]"
  by (simp add: mixed_rows post_row_views cell_raw_record iso_cells)

lemma mixed_ids_times:
  "map id_and_time (rows (posts iso_lib (DataFrame mixed_posts))) =
     [(StrV ''c3'', TsV 1704153600000000000),
      (StrV ''c4'', TsV 1704067200000000000),
      (StrV ''c5'', TsV 1704067200000000000),
      (StrV ''c2'', Null),
      (StrV ''c6'', Null),
      (StrV ''c1'', TsV 1704067200000000000)]"
  by (simp add: mixed_rows post_row_views cell_raw_record iso_cells py_str_def)

lemma mixed_valid: "set required_cols \<subseteq> set (columns (DataFrame mixed_posts))"
  by (simp add: DataFrame_mixed)

lemma unparsed_second_valid:
  "set required_cols \<subseteq> set (columns (DataFrame unparsed_second))"
  by (simp add: DataFrame_unparsed_second)

lemma alice_valid: "set required_cols \<subseteq> set (columns (DataFrame alice_only))"
  by (simp add: DataFrame_alice)

lemma alice_in_model: "raw_in_model (DataFrame alice_only)"
  unfolding DataFrame_alice
  by (simp add: raw_in_model_def alice_only_def cell_raw_record magnitude_def exact_def)

lemma mixed_in_model: "raw_in_model (DataFrame mixed_posts)"
  unfolding DataFrame_mixed
  by (simp add: raw_in_model_def mixed_posts_def cell_raw_record magnitude_def exact_def)

lemma unparsed_second_in_model: "raw_in_model (DataFrame unparsed_second)"
  unfolding DataFrame_unparsed_second
  by (simp add: raw_in_model_def unparsed_second_def cell_raw_record magnitude_def exact_def)

lemma DataFrame_missing_likes:
  "DataFrame missing_likes = \<lparr>columns = required_cols, rows = missing_likes\<rparr>"
  by (rule DataFrame_records) (simp_all add: missing_likes_def keys_raw_record)

lemma missing_likes_valid: "set required_cols \<subseteq> set (columns (DataFrame missing_likes))"
  by (simp add: DataFrame_missing_likes)

lemma missing_likes_in_model: "raw_in_model (DataFrame missing_likes)"
  unfolding DataFrame_missing_likes
  by (simp add: raw_in_model_def missing_likes_def cell_raw_record magnitude_def exact_def)

lemma post_row_counts:
  "counts_of (post_row L ts r) =
     (cell r ''likesCount'', cell r ''commentsCount'',
      engagement (cell r ''likesCount'') (cell r ''commentsCount''))"
  by (simp add: counts_of_def post_row_cells cell_Cons)

lemma missing_likes_sorted:
  "sort_key (raw_sort_key iso_lib ts) missing_likes = missing_likes"
  by (simp add: missing_likes_def)

lemma missing_likes_rows:
  "map counts_of (rows (posts iso_lib (DataFrame missing_likes))) = [(Null, IntV 2, Null)]"
  by (simp add: rows_posts_raw DataFrame_missing_likes missing_likes_sorted o_def
      post_row_counts)
    (simp add: missing_likes_def cell_raw_record)

lemma alice_counts:
  "map counts_of (rows (posts iso_lib (DataFrame alice_only))) = [(IntV 10, IntV 2, IntV 12)]"
  by (simp add: alice_posts counts_of_def cell_Cons)

section \<open>The frames the statements leave alone\<close>

lemma keeps_ret: "Q x \<Longrightarrow> keeps n (ret x) Q"
  by (simp add: keeps_def ret_def)

lemma keeps_raise: "keeps n (raise e) Q"
  by (simp add: keeps_def raise_def)

lemma keeps_lift: "keeps n (lift m) (\<lambda>x. True)"
  by (simp add: keeps_def lift_def)

lemma keeps_deref: "keeps n (deref p) (\<lambda>x. True)"
  by (simp add: keeps_def deref_def)

lemma keeps_new: "keeps n (new df) (\<lambda>p. n \<le> p)"
  by (simp add: keeps_def new_def)

lemma keeps_store: "n \<le> p \<Longrightarrow> keeps n (store p df) (\<lambda>x. True)"
  by (simp add: keeps_def store_def)

lemma keeps_bnd:
  assumes "keeps n m Q" and "\<And>x. Q x \<Longrightarrow> keeps n (f x) R"
  shows "keeps n (bnd m f) R"
  unfolding keeps_def
proof (intro allI impI)
  fix h :: heap
  assume n: "n \<le> length h"
  obtain r h1 where m: "m h = (r, h1)"
    by (cases "m h")
  from assms(1) n m have h1: "take n h1 = take n h" "n \<le> length h1" "\<forall>x. r = Inr x \<longrightarrow> Q x"
    by (auto simp: keeps_def)
  show "case bnd m f h of (r, h') \<Rightarrow>
      take n h' = take n h \<and> n \<le> length h' \<and> (\<forall>x. r = Inr x \<longrightarrow> R x)"
  proof (cases r)
    case (Inl e)
    with m h1 show ?thesis
      by (simp add: bnd_def)
  next
    case (Inr x)
    with h1 have "keeps n (f x) R"
      by (simp add: assms(2))
    with h1(2) have "case f x h1 of (r, h') \<Rightarrow>
        take n h' = take n h1 \<and> n \<le> length h' \<and> (\<forall>y. r = Inr y \<longrightarrow> R y)"
      by (simp add: keeps_def)
    with m Inr h1(1) show ?thesis
      by (auto simp: bnd_def)
  qed
qed

lemma keeps_then:
  assumes "keeps n m (\<lambda>x. True)" and "\<And>x. keeps n (f x) R"
  shows "keeps n (bnd m f) R"
  using assms(1) by (rule keeps_bnd) (rule assms(2))

lemma keeps_select_new: "keeps n (select_new p cs) (\<lambda>q. n \<le> q)"
  unfolding select_new_def
  by (intro keeps_then keeps_deref keeps_lift keeps_new)

lemma keeps_copy: "keeps n (copy p) (\<lambda>q. n \<le> q)"
  unfolding copy_def
  by (intro keeps_then keeps_deref keeps_new)

lemma keeps_rename_inplace: "n \<le> p \<Longrightarrow> keeps n (rename_inplace p m) (\<lambda>x. True)"
  unfolding rename_inplace_def
  by (intro keeps_then keeps_deref keeps_store)

lemma keeps_series: "keeps n (series p c) (\<lambda>x. True)"
  unfolding series_def
  by (intro keeps_then keeps_deref keeps_lift)

lemma keeps_assign_col: "n \<le> p \<Longrightarrow> keeps n (assign_col p c s) (\<lambda>x. True)"
  unfolding assign_col_def
  by (intro keeps_then keeps_deref keeps_lift keeps_store)

lemma keeps_sort_values_inplace:
  "n \<le> p \<Longrightarrow> keeps n (sort_values_inplace p keys key) (\<lambda>x. True)"
  unfolding sort_values_inplace_def
  by (intro keeps_then keeps_deref keeps_lift keeps_store)

lemma keeps_weaken: "keeps n m Q \<Longrightarrow> keeps n m (\<lambda>x. True)"
  by (auto simp: keeps_def split: prod.splits)

lemma keeps_derive:
  assumes "n \<le> df"
  shows "keeps n
       (bnd (rename_inplace df rename_map) (\<lambda>_.
        bnd (series df ''shortcode'') (\<lambda>shortcode.
        bnd (assign_col df ''post_id'' (astype_str L shortcode)) (\<lambda>_.
        bnd (series df ''timestamp'') (\<lambda>timestamp.
        bnd (lift (to_datetime L timestamp Coerce)) (\<lambda>parsed.
        bnd (assign_col df ''timestamp'' parsed) (\<lambda>_.
        bnd (series df ''likes'') (\<lambda>likes.
        bnd (series df ''comments'') (\<lambda>comments.
        bnd (lift (add_series likes comments)) (\<lambda>engagement.
        bnd (assign_col df ''engagement_raw'' engagement) (\<lambda>_.
        bnd (sort_values_inplace df [(''owner_username'', StrK), (''timestamp'', TsK)]
               posts_sort_key) (\<lambda>_.
        select_new df col_order))))))))))))
       (\<lambda>x. True)"
  by (intro keeps_then keeps_rename_inplace keeps_series keeps_assign_col keeps_lift
      keeps_sort_values_inplace keeps_weaken [OF keeps_select_new] assms)

lemma keeps_build_posts_table: "keeps n (build_posts_table L raw) (\<lambda>x. True)"
  unfolding build_posts_table_def Let_def
proof (rule keeps_then [OF keeps_deref])
  fix d :: dataframe
  show "keeps n
     (if [c \<leftarrow> required_cols. c \<notin> set (columns d)] \<noteq> []
      then raise (ValueError (missing_message [c \<leftarrow> required_cols. c \<notin> set (columns d)]))
      else bnd (select_new raw required_cols) (\<lambda>sel.
           bnd (copy sel) (\<lambda>df.
           bnd (rename_inplace df rename_map) (\<lambda>_.
           bnd (series df ''shortcode'') (\<lambda>shortcode.
           bnd (assign_col df ''post_id'' (astype_str L shortcode)) (\<lambda>_.
           bnd (series df ''timestamp'') (\<lambda>timestamp.
           bnd (lift (to_datetime L timestamp Coerce)) (\<lambda>parsed.
           bnd (assign_col df ''timestamp'' parsed) (\<lambda>_.
           bnd (series df ''likes'') (\<lambda>likes.
           bnd (series df ''comments'') (\<lambda>comments.
           bnd (lift (add_series likes comments)) (\<lambda>engagement.
           bnd (assign_col df ''engagement_raw'' engagement) (\<lambda>_.
           bnd (sort_values_inplace df [(''owner_username'', StrK), (''timestamp'', TsK)]
                  posts_sort_key) (\<lambda>_.
           select_new df col_order))))))))))))))
     (\<lambda>x. True)"
  proof (cases "[c \<leftarrow> required_cols. c \<notin> set (columns d)] \<noteq> []")
    case True
    then show ?thesis
      by (simp add: keeps_raise)
  next
    case False
    have "keeps n
       (bnd (select_new raw required_cols) (\<lambda>sel.
        bnd (copy sel) (\<lambda>df.
        bnd (rename_inplace df rename_map) (\<lambda>_.
        bnd (series df ''shortcode'') (\<lambda>shortcode.
        bnd (assign_col df ''post_id'' (astype_str L shortcode)) (\<lambda>_.
        bnd (series df ''timestamp'') (\<lambda>timestamp.
        bnd (lift (to_datetime L timestamp Coerce)) (\<lambda>parsed.
        bnd (assign_col df ''timestamp'' parsed) (\<lambda>_.
        bnd (series df ''likes'') (\<lambda>likes.
        bnd (series df ''comments'') (\<lambda>comments.
        bnd (lift (add_series likes comments)) (\<lambda>engagement.
        bnd (assign_col df ''engagement_raw'' engagement) (\<lambda>_.
        bnd (sort_values_inplace df [(''owner_username'', StrK), (''timestamp'', TsK)]
               posts_sort_key) (\<lambda>_.
        select_new df col_order))))))))))))))
       (\<lambda>x. True)"
      by (rule keeps_then [OF keeps_weaken [OF keeps_select_new]])
        (rule keeps_bnd [OF keeps_copy], rule keeps_derive)
    with False show ?thesis
      by simp
  qed
qed

lemma keeps_frames:
  assumes "keeps (length h) m Q" and "p < length h"
  shows "take (length h) (snd (m h)) = h" and "snd (m h) ! p = h ! p"
proof -
  obtain r h' where m: "m h = (r, h')"
    by (cases "m h")
  with assms(1) have h': "take (length h) h' = h"
    by (auto simp: keeps_def)
  then show "take (length h) (snd (m h)) = h"
    by (simp add: m)
  have "take (length h) h' ! p = h' ! p"
    using assms(2) by simp
  with h' show "snd (m h) ! p = h ! p"
    by (simp add: m)
qed

section \<open>The claims about the post table\<close>

text \<open>
  C2. The claim as the specification words it fails on a post with a missing count: the
  engagement of the post is missing too, and an equation with a missing number is false.
  On a raw table of the data model that has all required columns \<^verbatim>\<open>build_posts_table\<close>
  returns, and in every row of the frame it returns \<^verbatim>\<open>engagement_raw\<close> is the integer
  \<^verbatim>\<open>likes + comments\<close> when both counts are present, and missing when a count is
  missing. So the equation of the specification holds in every row with both counts.
\<close>

theorem engagement_raw_sums_present_counts:
  assumes "raw < length h" and "set required_cols \<subseteq> set (columns (h ! raw))"
    and "raw_in_model (h ! raw)"
  shows "\<exists>p h'. build_posts_table L raw h = (Inr p, h') \<and>
           (\<forall>r \<in> set (rows (h' ! p)).
              counts_sum (counts_of r) \<and>
              (counts_present (counts_of r) \<longrightarrow> claimed_sum (counts_of r)))"
proof -
  have "counts_sum (counts_of r) \<and> (counts_present (counts_of r) \<longrightarrow> claimed_sum (counts_of r))"
    if "r \<in> set (rows (posts L (h ! raw)))" for r
  proof -
    from that obtain r0 where r0: "r0 \<in> set (rows (h ! raw))"
      and r: "r = post_row L (map (\<lambda>r. cell r ''timestamp'') (rows (h ! raw))) r0"
      by (auto simp: in_rows_posts)
    have "kind_of (cell r0 ''likesCount'') \<in> {NullK, IntK}"
      and "kind_of (cell r0 ''commentsCount'') \<in> {NullK, IntK}"
      by (rule raw_in_model_cells [OF assms(3) r0])+
    then show ?thesis
      unfolding r post_row_counts
      by (cases "cell r0 ''likesCount''"; cases "cell r0 ''commentsCount''") simp_all
  qed
  then show ?thesis
    using build_posts_table_ok [OF assms, of L] by (simp add: nth_append)
qed

theorem engagement_raw_sums_present_counts_witness:
  "\<exists>p h'. build_posts_table iso_lib 0 [DataFrame alice_only] = (Inr p, h') \<and>
     map counts_of (rows (h' ! p)) = [(IntV 10, IntV 2, IntV 12)] \<and>
     list_all claimed_sum (map counts_of (rows (h' ! p)))"
  using engagement_raw_sums_present_counts [of 0 "[DataFrame alice_only]" iso_lib]
    alice_valid alice_in_model
  by (simp add: build_fresh alice_counts)

theorem engagement_of_missing_count_counterexample:
  "posts_table_of iso_lib missing_likes = Inr (posts iso_lib (DataFrame missing_likes)) \<and>
   map counts_of (rows (posts iso_lib (DataFrame missing_likes))) = [(Null, IntV 2, Null)] \<and>
   \<not> list_all claimed_sum (map counts_of (rows (posts iso_lib (DataFrame missing_likes))))"
  by (simp add: posts_table_of_ok [OF missing_likes_valid missing_likes_in_model]
      missing_likes_rows)

text \<open>
  C3. The claim as the specification words it fails on a post with an unparsable
  timestamp: of two posts of one owner the one without an instant is sorted last, and no
  instant is at least a missing one. On a raw table of the data model the sort gives
  this order: names ascending, rows without a name last; under one name instants
  descending, rows without an instant last. Where every row has a name and an instant,
  this is the order of the specification.
\<close>

theorem posts_sorted_missing_last:
  assumes "raw < length h" and "set required_cols \<subseteq> set (columns (h ! raw))"
    and "raw_in_model (h ! raw)"
  shows "\<exists>p h'. build_posts_table L raw h = (Inr p, h') \<and>
           adjacent posts_order (map name_and_time (rows (h' ! p))) \<and>
           (list_all both_present (map name_and_time (rows (h' ! p))) \<longrightarrow>
              adjacent claimed_order (map name_and_time (rows (h' ! p))))"
proof -
  let ?v = "map name_and_time (rows (posts L (h ! raw)))"
  have "adjacent (\<lambda>r r'. posts_order (name_and_time r) (name_and_time r'))
      (rows (posts L (h ! raw)))"
    by (rule adjacent_mono [OF sorted_adjacent [OF sorted_posts]]) (rule key_le_order)
  then have a: "adjacent posts_order ?v"
    by (simp add: adjacent_map)
  have "adjacent claimed_order ?v" if "list_all both_present ?v"
  proof (rule adjacent_conj [OF a, where R = both_present])
    show "\<forall>x \<in> set ?v. both_present x"
      using that by (simp add: list_all_iff)
  qed (rule order_present)
  with a show ?thesis
    using build_posts_table_ok [OF assms, of L] by (simp add: nth_append)
qed

theorem posts_sorted_missing_last_witness:
  "posts_table_of iso_lib mixed_posts = Inr (posts iso_lib (DataFrame mixed_posts)) \<and>
   map name_and_time (rows (posts iso_lib (DataFrame mixed_posts))) =
     [(StrV ''alice'', TsV 1704153600000000000),
      (StrV ''alice'', TsV 1704067200000000000),
      (StrV ''alice'', TsV 1704067200000000000),
      (StrV ''alice'', Null),
      (StrV ''alice'', Null),
      (StrV ''bob'', TsV 1704067200000000000)] \<and>
   adjacent posts_order (map name_and_time (rows (posts iso_lib (DataFrame mixed_posts))))"
  using posts_sorted_missing_last [of 0 "[DataFrame mixed_posts]" iso_lib]
    mixed_valid mixed_in_model
  by (simp add: posts_table_of_ok build_fresh mixed_names_times)

theorem posts_order_null_counterexample:
  "posts_table_of iso_lib unparsed_second = Inr (posts iso_lib (DataFrame unparsed_second)) \<and>
   map name_and_time (rows (posts iso_lib (DataFrame unparsed_second)))
     = [(StrV ''alice'', TsV 1704067200000000000), (StrV ''alice'', Null)] \<and>
   \<not> adjacent claimed_order
       (map name_and_time (rows (posts iso_lib (DataFrame unparsed_second))))"
proof -
  have "posts_table_of iso_lib unparsed_second
      = Inr (posts iso_lib (DataFrame unparsed_second))"
    using unparsed_second_valid unparsed_second_in_model by (rule posts_table_of_ok)
  moreover have "\<not> adjacent claimed_order
      (map name_and_time (rows (posts iso_lib (DataFrame unparsed_second))))"
    by (simp add: unparsed_second_rows)
  ultimately show ?thesis
    using unparsed_second_rows by simp
qed

text \<open>
  C8. The sort is stable. On a raw table of the data model, the rows of the returned
  frame that have one name (or none) and one instant (or none) are the rows of the raw
  rows with this name and instant, in the order in which the raw table lists them; no
  statement before the sort reorders the rows. The order among such rows is kept by the
  stable sort of \<^verbatim>\<open>sort_values\<close> on several keys, which is pandas' and is modelled by
  \<open>sort_key\<close>.
\<close>

theorem sort_keeps_order_of_ties:
  assumes "raw < length h" and "set required_cols \<subseteq> set (columns (h ! raw))"
    and "raw_in_model (h ! raw)"
  shows "\<exists>p h'. build_posts_table L raw h = (Inr p, h') \<and>
           (\<forall>k. [r \<leftarrow> rows (h' ! p). name_and_time r = k] =
                  map (post_row L (map (\<lambda>r. cell r ''timestamp'') (rows (h ! raw))))
                    [r \<leftarrow> rows (h ! raw).
                       raw_name_and_time L (map (\<lambda>r. cell r ''timestamp'') (rows (h ! raw))) r
                         = k])"
proof -
  let ?ts = "map (\<lambda>r. cell r ''timestamp'') (rows (h ! raw))"
  let ?key = "raw_sort_key L ?ts"
  let ?nt = "raw_name_and_time L ?ts"
  let ?g = "\<lambda>k. (username_key (fst k), timestamp_key (snd k))"
  have key: "?key r = ?g (?nt r)" for r
    by (simp add: raw_sort_key_def raw_name_and_time_def)
  have "[r \<leftarrow> rows (posts L (h ! raw)). name_and_time r = k] =
      map (post_row L ?ts) [r \<leftarrow> rows (h ! raw). ?nt r = k]" for k
  proof -
    have "[r \<leftarrow> sort_key ?key (rows (h ! raw)). ?nt r = k]
        = [r \<leftarrow> [r \<leftarrow> sort_key ?key (rows (h ! raw)). ?key r = ?g k]. ?nt r = k]"
      by (auto simp: key intro: filter_cong)
    also have "\<dots> = [r \<leftarrow> [r \<leftarrow> rows (h ! raw). ?key r = ?g k]. ?nt r = k]"
      by (simp only: sort_key_stable)
    also have "\<dots> = [r \<leftarrow> rows (h ! raw). ?nt r = k]"
      by (auto simp: key intro: filter_cong)
    finally show ?thesis
      by (simp add: rows_posts_raw filter_map o_def post_row_views raw_name_and_time_def)
  qed
  then show ?thesis
    using build_posts_table_ok [OF assms, of L] by (simp add: nth_append)
qed

theorem sort_keeps_order_of_ties_witness:
  "posts_table_of iso_lib mixed_posts = Inr (posts iso_lib (DataFrame mixed_posts)) \<and>
   map id_and_time (rows (posts iso_lib (DataFrame mixed_posts))) =
     [(StrV ''c3'', TsV 1704153600000000000),
      (StrV ''c4'', TsV 1704067200000000000),
      (StrV ''c5'', TsV 1704067200000000000),
      (StrV ''c2'', Null),
      (StrV ''c6'', Null),
      (StrV ''c1'', TsV 1704067200000000000)]"
  using sort_keeps_order_of_ties [of 0 "[DataFrame mixed_posts]" iso_lib]
    mixed_valid mixed_in_model
  by (simp add: posts_table_of_ok mixed_ids_times)

text \<open>
  C6. A raw table of the data model with all required columns does not make
  \<^verbatim>\<open>build_posts_table\<close> raise, whatever strings its timestamps are: the returned frame
  has as many rows as the raw table and holds the row of every raw row, and the row of a
  raw row whose timestamp is the empty string, or a string the parser cannot read, has a
  missing timestamp.
\<close>

theorem unparsable_timestamp_is_null:
  assumes "raw < length h" and "set required_cols \<subseteq> set (columns (h ! raw))"
    and "raw_in_model (h ! raw)"
  shows "\<exists>p h'. build_posts_table L raw h = (Inr p, h') \<and>
           length (rows (h' ! p)) = length (rows (h ! raw)) \<and>
           (\<forall>r \<in> set (rows (h ! raw)).
              post_row L (map (\<lambda>r. cell r ''timestamp'') (rows (h ! raw))) r \<in> set (rows (h' ! p)) \<and>
              (cell r ''timestamp'' = StrV [] \<or>
               unparsable L (map (\<lambda>r. cell r ''timestamp'') (rows (h ! raw))) (cell r ''timestamp'')
               \<longrightarrow> cell (post_row L (map (\<lambda>r. cell r ''timestamp'') (rows (h ! raw))) r)
                     ''timestamp'' = Null))"
proof -
  let ?ts = "map (\<lambda>r. cell r ''timestamp'') (rows (h ! raw))"
  have len: "length (rows (posts L (h ! raw))) = length (rows (h ! raw))"
    by (simp add: rows_posts)
  have mem: "post_row L ?ts r \<in> set (rows (posts L (h ! raw)))" if "r \<in> set (rows (h ! raw))" for r
    using that by (auto simp: in_rows_posts)
  have nat: "cell (post_row L ?ts r) ''timestamp'' = Null"
    if "cell r ''timestamp'' = StrV [] \<or> unparsable L ?ts (cell r ''timestamp'')" for r
    using that by (auto simp: post_row_cells cell_Cons to_datetime_cell_def unparsable_def)
  show ?thesis
    using build_posts_table_ok [OF assms, of L] len mem nat by (simp add: nth_append)
qed

theorem unparsable_timestamp_is_null_witness:
  "posts_table_of iso_lib mixed_posts = Inr (posts iso_lib (DataFrame mixed_posts)) \<and>
   unparsable iso_lib (map (\<lambda>r. cell r ''timestamp'') mixed_posts) (StrV ''not a date'') \<and>
   length (rows (posts iso_lib (DataFrame mixed_posts))) = 6 \<and>
   [x \<leftarrow> map id_and_time (rows (posts iso_lib (DataFrame mixed_posts))). snd x = Null] =
     [(StrV ''c2'', Null), (StrV ''c6'', Null)]"
proof -
  have "length (rows (posts iso_lib (DataFrame mixed_posts))) = 6"
    by (simp add: mixed_rows)
  moreover have "unparsable iso_lib (map (\<lambda>r. cell r ''timestamp'') mixed_posts)
      (StrV ''not a date'')"
    by (simp add: unparsable_def iso_lib_def parse_iso_cell_def parse_bad)
  ultimately show ?thesis
    using unparsable_timestamp_is_null [of 0 "[DataFrame mixed_posts]" iso_lib]
      mixed_valid mixed_in_model
    by (simp add: posts_table_of_ok mixed_ids_times)
qed

text \<open>
  C10. \<^verbatim>\<open>build_posts_table\<close> leaves every frame that was there before the call as it
  was, the raw table among them, whether it returns or raises: what it updates in place
  is the copy it made.
\<close>

theorem input_frame_untouched:
  assumes "raw < length h"
  shows "take (length h) (snd (build_posts_table L raw h)) = h \<and>
         snd (build_posts_table L raw h) ! raw = h ! raw"
  using keeps_frames [where m = "build_posts_table L raw", OF keeps_build_posts_table assms]
  by simp

theorem input_frame_untouched_witness:
  "fst (build_posts_table iso_lib 0 [DataFrame mixed_posts]) = Inr 3 \<and>
   length (snd (build_posts_table iso_lib 0 [DataFrame mixed_posts])) = 4 \<and>
   snd (build_posts_table iso_lib 0 [DataFrame mixed_posts]) ! 0 = DataFrame mixed_posts"
  using input_frame_untouched [of 0 "[DataFrame mixed_posts]" iso_lib]
    mixed_valid mixed_in_model
  by (simp add: build_fresh)

end
